theory Spec2Isabelle
  imports Complex_Main
begin

section \<open>JavaScript numbers used by the scoring code\<close>

text \<open>
  The score is computed by \<^verbatim>\<open>Math.round((correctCount / questions.length) * 100)\<close>.
  Both operands of the division are array-bounded non-negative integers, so every
  intermediate value is a non-negative IEEE-754 binary64 number, NaN (for 0/0) or
  +Infinity (for c/0). A finite value is kept as the exact fraction \<open>n / d\<close> it denotes.
  Division and multiplication round their exact result to the nearest binary64 value,
  ties to even (53 significant bits); the exponent range is not limited, which is exact
  here since the values lie between \<open>2^-32\<close> and \<open>2^39\<close>.
\<close>

datatype jsnum = NaN | Infinity | Finite nat nat

fun bitlen :: "nat \<Rightarrow> nat" where
  "bitlen n = (if n = 0 then 0 else Suc (bitlen (n div 2)))"

declare bitlen.simps [simp del]

definition floor_log2 :: "nat \<Rightarrow> nat \<Rightarrow> int" where
  \<comment> \<open>\<open>\<lfloor>log\<^sub>2 (a / b)\<rfloor>\<close> for positive \<open>a\<close>, \<open>b\<close>\<close>
  "floor_log2 a b =
     (let d = int (bitlen a) - int (bitlen b)
      in if (if 0 \<le> d then b * 2 ^ nat d \<le> a else b \<le> a * 2 ^ nat (- d)) then d else d - 1)"

definition round_ties_even :: "nat \<Rightarrow> nat \<Rightarrow> nat" where
  \<comment> \<open>the integer nearest to \<open>n / d\<close>, the even one of two equally near\<close>
  "round_ties_even n d =
     (let q = n div d; r = n mod d
      in if 2 * r < d then q
         else if d < 2 * r then q + 1
         else if even q then q else q + 1)"

definition to_double :: "nat \<Rightarrow> nat \<Rightarrow> jsnum" where
  \<comment> \<open>the binary64 value nearest to \<open>a / b\<close> (\<open>b > 0\<close>): the quotient is scaled by \<open>2^s\<close>
      into \<open>[2^52, 2^53)\<close>, rounded to an integer significand and scaled back\<close>
  "to_double a b =
     (if a = 0 then Finite 0 1
      else let s = 52 - floor_log2 a b
           in if 0 \<le> s then Finite (round_ties_even (a * 2 ^ nat s) b) (2 ^ nat s)
              else Finite (round_ties_even a (b * 2 ^ nat (- s)) * 2 ^ nat (- s)) 1)"

definition js_div :: "nat \<Rightarrow> nat \<Rightarrow> jsnum" where
  \<comment> \<open>\<^verbatim>\<open>a / b\<close> on non-negative integers\<close>
  "js_div a b = (if b = 0 then (if a = 0 then NaN else Infinity) else to_double a b)"

fun js_mul :: "jsnum \<Rightarrow> nat \<Rightarrow> jsnum" where
  \<comment> \<open>\<^verbatim>\<open>x * k\<close> for a non-negative integer \<open>k\<close>\<close>
  "js_mul NaN k = NaN"
| "js_mul Infinity k = (if k = 0 then NaN else Infinity)"
| "js_mul (Finite n d) k = to_double (n * k) d"

fun Math_round :: "jsnum \<Rightarrow> int option" where
  \<comment> \<open>\<^verbatim>\<open>Math.round\<close>: the nearest integer, the larger one of two equally near, that is
      \<open>\<lfloor>x + 1/2\<rfloor>\<close>. \<open>None\<close> stands for a result that is no integer (NaN, Infinity), which
      the JSON request body carries as \<^verbatim>\<open>null\<close>.\<close>
  "Math_round NaN = None"
| "Math_round Infinity = None"
| "Math_round (Finite n d) = Some (int ((2 * n + d) div (2 * d)))"

section \<open>The exam-taking page (TakeExam)\<close>

record Question =
  qid :: string
  question_text :: string
  option_a :: string
  option_b :: string
  option_c :: string
  option_d :: string
  correct_option :: string
  order_index :: int

record Exam =
  exam_id :: string
  exam_title :: string
  exam_description :: "string option"
  exam_category :: string
  exam_duration_minutes :: int

datatype toast = Success string | Error string | Warning string

text \<open>
  A function of the component reads the user, exam, questions and answers of the render
  that created it.
\<close>

record closure =
  c_user :: "string option"
  c_exam :: "Exam option"
  c_questions :: "Question list"
  c_answers :: "string \<rightharpoonup> string"

text \<open>
  The component state of \<^verbatim>\<open>TakeExam\<close>: one field per \<^verbatim>\<open>useState\<close>, the signed-in
  user's id from \<^verbatim>\<open>useAuth\<close>, the toasts shown so far and the target of the last
  \<^verbatim>\<open>navigate\<close> call (\<open>None\<close> while the exam page is still the one shown). Two cells
  of the React runtime belong to it as well: \<open>autoSubmit\<close> is what the memoised
  \<^verbatim>\<open>handleAutoSubmit\<close> (\<^verbatim>\<open>useCallback\<close> on \<^verbatim>\<open>[answers, questions]\<close>) and the
  \<^verbatim>\<open>submitExam\<close> it calls have captured; \<open>interval\<close> is the interval set by the
  effect on \<^verbatim>\<open>[timeLeft]\<close>, with what the \<^verbatim>\<open>handleAutoSubmit\<close> in its callback has
  captured, and \<open>None\<close> when no interval is set.
\<close>

record TakeExam =
  user :: "string option"
  exam :: "Exam option"
  questions :: "Question list"
  currentIndex :: int
  answers :: "string \<rightharpoonup> string"
  timeLeft :: int
  loading :: bool
  submitting :: bool
  showSubmitDialog :: bool
  startTime :: int
  toasts :: "toast list"
  navigated :: "string option"
  autoSubmit :: closure
  interval :: "closure option"

subsection \<open>The two tables written by a submission\<close>

record ExamResultInsert =
  er_user_id :: string
  er_exam_id :: string
  er_score :: "int option"
  er_total_questions :: nat
  er_correct_answers :: nat
  er_time_taken_seconds :: int

record StudentAnswer =
  sa_result_id :: string
  sa_question_id :: string
  sa_selected_option :: "string option"
  sa_is_correct :: bool

datatype request =
    InsertExamResult ExamResultInsert
  | InsertStudentAnswers "StudentAnswer list"

text \<open>
  The hosted database is outside the repository. Its state is the rows of the tables and
  the requests it has received, in order. Whether it accepts a write (network,
  row-level policy, constraints) is an input of the model: the response to each request.
  A rejected write changes no table.
\<close>

record results_db =
  exam_results :: "(string \<times> ExamResultInsert) list"
  student_answers :: "StudentAnswer list"
  requests :: "request list"

record submit_env =
  Date_now :: int
  result_response :: "string + string"
  answers_accepted :: bool

definition insert_exam_result ::
  "string + string \<Rightarrow> ExamResultInsert \<Rightarrow> results_db \<Rightarrow> (string + string) \<times> results_db" where
  \<comment> \<open>\<^verbatim>\<open>from('exam_results').insert(row).select('id').single()\<close>: the response is an
      error, or the id the database gave the new row\<close>
  "insert_exam_result resp row db =
     (case resp of
        Inl err \<Rightarrow> (Inl err, db\<lparr>requests := requests db @ [InsertExamResult row]\<rparr>)
      | Inr rid \<Rightarrow>
          (Inr rid, db\<lparr>exam_results := exam_results db @ [(rid, row)],
                        requests := requests db @ [InsertExamResult row]\<rparr>))"

definition insert_student_answers ::
  "bool \<Rightarrow> StudentAnswer list \<Rightarrow> results_db \<Rightarrow> results_db" where
  \<comment> \<open>\<^verbatim>\<open>from('student_answers').insert(rows)\<close>: one multi-row insert\<close>
  "insert_student_answers accepted rows db =
     (if accepted
      then db\<lparr>student_answers := student_answers db @ rows,
               requests := requests db @ [InsertStudentAnswers rows]\<rparr>
      else db\<lparr>requests := requests db @ [InsertStudentAnswers rows]\<rparr>)"

subsection \<open>Navigation and answer selection\<close>

definition goToQuestion :: "int \<Rightarrow> TakeExam \<Rightarrow> TakeExam" where
  \<comment> \<open>the callers pass integers: a position of the navigator, or
      \<^verbatim>\<open>currentIndex - 1\<close> and \<^verbatim>\<open>currentIndex + 1\<close>\<close>
  "goToQuestion index s =
     (if index \<ge> 0 \<and> index < int (length (questions s))
      then s\<lparr>currentIndex := index\<rparr> else s)"

definition selectAnswer :: "string \<Rightarrow> string \<Rightarrow> TakeExam \<Rightarrow> TakeExam" where
  "selectAnswer questionId option s = s\<lparr>answers := (answers s)(questionId \<mapsto> option)\<rparr>"

subsection \<open>Renders, closures and the route\<close>

definition capture :: "TakeExam \<Rightarrow> closure" where
  \<comment> \<open>what a function created by the current render reads\<close>
  "capture s =
     \<lparr>c_user = user s, c_exam = exam s, c_questions = questions s, c_answers = answers s\<rparr>"

definition seen_by :: "closure \<Rightarrow> TakeExam \<Rightarrow> TakeExam" where
  \<comment> \<open>the state as a closure reads it: its own user, exam, questions and answers;
      \<^verbatim>\<open>startTime\<close> never changes\<close>
  "seen_by cl s =
     s\<lparr>user := c_user cl, exam := c_exam cl, questions := c_questions cl,
       answers := c_answers cl\<rparr>"

definition new_handleAutoSubmit :: "TakeExam \<Rightarrow> TakeExam" where
  \<comment> \<open>\<^verbatim>\<open>useCallback(..., [answers, questions])\<close>: the render after a change of the
      answers or the questions creates \<^verbatim>\<open>handleAutoSubmit\<close> anew\<close>
  "new_handleAutoSubmit s = s\<lparr>autoSubmit := capture s\<rparr>"

definition timer_effect :: "TakeExam \<Rightarrow> TakeExam" where
  \<comment> \<open>the effect on \<^verbatim>\<open>[timeLeft]\<close>, run after a change of \<^verbatim>\<open>timeLeft\<close>: the
      cleanup clears the interval that was set, then
      \<^verbatim>\<open>if (timeLeft <= 0) return\<close>, else a new interval is set whose callback holds
      the \<^verbatim>\<open>handleAutoSubmit\<close> of this render\<close>
  "timer_effect s = s\<lparr>interval := (if timeLeft s \<le> 0 then None else Some (autoSubmit s))\<rparr>"

definition navigate :: "string \<Rightarrow> TakeExam \<Rightarrow> TakeExam" where
  \<comment> \<open>the route changes to another page: the component unmounts and the cleanup of the
      effect clears the interval\<close>
  "navigate path s = s\<lparr>navigated := Some path, interval := None\<rparr>"

definition clickOption :: "string \<Rightarrow> string \<Rightarrow> TakeExam \<Rightarrow> TakeExam" where
  \<comment> \<open>a click on an option, and the render that follows\<close>
  "clickOption questionId option s = new_handleAutoSubmit (selectAnswer questionId option s)"

subsection \<open>Submission\<close>

definition correctCount :: "Question list \<Rightarrow> (string \<rightharpoonup> string) \<Rightarrow> nat" where
  \<comment> \<open>the \<^verbatim>\<open>forEach\<close> loop that increments \<^verbatim>\<open>correctCount\<close>\<close>
  "correctCount qs ans =
     fold (\<lambda>q c. if ans (qid q) = Some (correct_option q) then c + 1 else c) qs 0"

definition score_of :: "nat \<Rightarrow> nat \<Rightarrow> int option" where
  \<comment> \<open>\<^verbatim>\<open>Math.round((correctCount / questions.length) * 100)\<close>\<close>
  "score_of c n = Math_round (js_mul (js_div c n) 100)"

definition or_null :: "string option \<Rightarrow> string option" where
  \<comment> \<open>\<^verbatim>\<open>answers[q.id] || null\<close>: a missing entry and the empty string both give null\<close>
  "or_null v = (case v of None \<Rightarrow> None | Some x \<Rightarrow> if x = [] then None else Some x)"

definition answersToInsert ::
  "string \<Rightarrow> Question list \<Rightarrow> (string \<rightharpoonup> string) \<Rightarrow> StudentAnswer list" where
  "answersToInsert rid qs ans =
     map (\<lambda>q. \<lparr>sa_result_id = rid, sa_question_id = qid q,
               sa_selected_option = or_null (ans (qid q)),
               sa_is_correct = (ans (qid q) = Some (correct_option q))\<rparr>) qs"

definition result_payload :: "submit_env \<Rightarrow> string \<Rightarrow> Exam \<Rightarrow> TakeExam \<Rightarrow> ExamResultInsert" where
  \<comment> \<open>the row object passed to the \<^verbatim>\<open>exam_results\<close> insert;
      \<^verbatim>\<open>timeTaken = Math.floor((Date.now() - startTime) / 1000)\<close>\<close>
  "result_payload env u e s =
     \<lparr>er_user_id = u, er_exam_id = exam_id e,
      er_score = score_of (correctCount (questions s) (answers s)) (length (questions s)),
      er_total_questions = length (questions s),
      er_correct_answers = correctCount (questions s) (answers s),
      er_time_taken_seconds = (Date_now env - startTime s) div 1000\<rparr>"

text \<open>
  \<^verbatim>\<open>submitExam\<close> is an async function. Its first part runs from the call to the first
  \<^verbatim>\<open>await\<close>: the guard on user and exam, \<^verbatim>\<open>setSubmitting(true)\<close>, the score and the
  \<^verbatim>\<open>exam_results\<close> insert request, all on the values its closure captured. What it
  still holds when it is suspended there is the response and the captured questions and
  answers. The database carries a request out when it is sent; the response reaches the
  page later.
\<close>

record pending =
  p_response :: "string + string"
  p_questions :: "Question list"
  p_answers :: "string \<rightharpoonup> string"

definition submitExam_start_from ::
  "submit_env \<Rightarrow> closure \<Rightarrow> TakeExam \<Rightarrow> results_db
     \<Rightarrow> TakeExam \<times> results_db \<times> pending option" where
  \<comment> \<open>the \<^verbatim>\<open>submitExam\<close> of the render that \<open>cl\<close> captured, called in state \<open>s\<close>\<close>
  "submitExam_start_from env cl s db =
     (case c_user cl of
        None \<Rightarrow> (s, db, None)
      | Some u \<Rightarrow>
          (case c_exam cl of
             None \<Rightarrow> (s, db, None)
           | Some e \<Rightarrow>
               (let (resp, db') = insert_exam_result (result_response env)
                                    (result_payload env u e (seen_by cl s)) db
                in (s\<lparr>submitting := True\<rparr>, db',
                    Some \<lparr>p_response = resp, p_questions = c_questions cl,
                          p_answers = c_answers cl\<rparr>))))"

definition submitExam_start ::
  "submit_env \<Rightarrow> TakeExam \<Rightarrow> results_db \<Rightarrow> TakeExam \<times> results_db \<times> pending option" where
  \<comment> \<open>the \<^verbatim>\<open>submitExam\<close> of the current render, which the action of the submit dialog
      calls\<close>
  "submitExam_start env s db = submitExam_start_from env (capture s) s db"

definition submitExam_finish ::
  "submit_env \<Rightarrow> pending \<Rightarrow> TakeExam \<Rightarrow> results_db \<Rightarrow> TakeExam \<times> results_db" where
  \<comment> \<open>from the first \<^verbatim>\<open>await\<close> on: \<^verbatim>\<open>if (resultError) throw resultError\<close> goes to the
      \<^verbatim>\<open>catch\<close>; otherwise the answers are inserted (the response is not looked at),
      success is shown and the page navigates to the result; \<^verbatim>\<open>finally\<close> clears
      \<^verbatim>\<open>submitting\<close>\<close>
  "submitExam_finish env p s db =
     (case p_response p of
        Inl err \<Rightarrow>
          (s\<lparr>toasts := toasts s @ [Error ''Failed to submit exam''], submitting := False\<rparr>, db)
      | Inr rid \<Rightarrow>
          (navigate (''/student/result/'' @ rid)
             (s\<lparr>toasts := toasts s @ [Success ''Exam submitted successfully!''],
                submitting := False\<rparr>),
           insert_student_answers (answers_accepted env)
             (answersToInsert rid (p_questions p) (p_answers p)) db))"

definition submitExam :: "submit_env \<Rightarrow> TakeExam \<Rightarrow> results_db \<Rightarrow> TakeExam \<times> results_db" where
  \<comment> \<open>one call of \<^verbatim>\<open>submitExam\<close> run to its end with nothing in between\<close>
  "submitExam env s db =
     (case submitExam_start env s db of
        (s', db', None) \<Rightarrow> (s', db')
      | (s', db', Some p) \<Rightarrow> submitExam_finish env p s' db')"

subsection \<open>The countdown\<close>

definition handleAutoSubmit ::
  "submit_env \<Rightarrow> closure \<Rightarrow> TakeExam \<Rightarrow> results_db
     \<Rightarrow> TakeExam \<times> results_db \<times> pending option" where
  \<comment> \<open>the \<^verbatim>\<open>handleAutoSubmit\<close> that captured \<open>cl\<close>, up to the first \<^verbatim>\<open>await\<close> of its
      \<^verbatim>\<open>submitExam\<close>\<close>
  "handleAutoSubmit env cl s db =
     submitExam_start_from env cl
       (s\<lparr>toasts := toasts s @ [Warning ''Time is up! Submitting your answers...'']\<rparr>) db"

definition tick_start ::
  "submit_env \<Rightarrow> TakeExam \<Rightarrow> results_db \<Rightarrow> TakeExam \<times> results_db \<times> pending option" where
  \<comment> \<open>the interval callback, when an interval is set: the updater passed to
      \<^verbatim>\<open>setTimeLeft\<close> reads the current \<^verbatim>\<open>timeLeft\<close>; at \<^verbatim>\<open>prev <= 1\<close> it clears the
      interval, calls the \<^verbatim>\<open>handleAutoSubmit\<close> that the callback holds and returns 0;
      otherwise it returns \<^verbatim>\<open>prev - 1\<close>. The change of \<^verbatim>\<open>timeLeft\<close> runs the effect.\<close>
  "tick_start env s db =
     (case interval s of
        None \<Rightarrow> (s, db, None)
      | Some cl \<Rightarrow>
          if timeLeft s \<le> 1
          then (let (s', db', p) = handleAutoSubmit env cl s db
                in (timer_effect (s'\<lparr>timeLeft := 0\<rparr>), db', p))
          else (timer_effect (s\<lparr>timeLeft := timeLeft s - 1\<rparr>), db, None))"

definition tick :: "submit_env \<Rightarrow> TakeExam \<Rightarrow> results_db \<Rightarrow> TakeExam \<times> results_db" where
  \<comment> \<open>a tick whose submission, if it starts one, runs to its end with nothing in between\<close>
  "tick env s db =
     (case tick_start env s db of
        (s', db', None) \<Rightarrow> (s', db')
      | (s', db', Some p) \<Rightarrow> submitExam_finish env p s' db')"

text \<open>
  A session is a sequence of events on the page, the database and the submissions that
  wait for their response. The page reacts to clicks while it is shown, and the action
  of the submit dialog is disabled while \<^verbatim>\<open>submitting\<close>. A response may reach any of
  the waiting submissions, also after the page was left.
\<close>

datatype event =
    Tick
  | SelectAnswer string string
  | GoToQuestion int
  | SubmitClicked
  | Response nat
  | Unmount string

definition waiting :: "pending list \<Rightarrow> pending option \<Rightarrow> pending list" where
  "waiting ps p = (case p of None \<Rightarrow> ps | Some x \<Rightarrow> ps @ [x])"

fun step ::
  "submit_env \<times> event \<Rightarrow> TakeExam \<times> results_db \<times> pending list
     \<Rightarrow> TakeExam \<times> results_db \<times> pending list" where
  "step (env, Tick) (s, db, ps) =
     (case tick_start env s db of (s', db', p) \<Rightarrow> (s', db', waiting ps p))"
| "step (env, SelectAnswer q opt) (s, db, ps) =
     (if navigated s = None then clickOption q opt s else s, db, ps)"
| "step (env, GoToQuestion i) (s, db, ps) =
     (if navigated s = None then goToQuestion i s else s, db, ps)"
| "step (env, SubmitClicked) (s, db, ps) =
     (if navigated s = None \<and> \<not> submitting s
      then (case submitExam_start env s db of (s', db', p) \<Rightarrow> (s', db', waiting ps p))
      else (s, db, ps))"
| "step (env, Response k) (s, db, ps) =
     (if k < length ps
      then (case submitExam_finish env (ps ! k) s db of
              (s', db') \<Rightarrow> (s', db', take k ps @ drop (Suc k) ps))
      else (s, db, ps))"
| "step (env, Unmount path) (s, db, ps) = (navigate path s, db, ps)"

definition run ::
  "(submit_env \<times> event) list \<Rightarrow> TakeExam \<times> results_db \<times> pending list
     \<Rightarrow> TakeExam \<times> results_db \<times> pending list" where
  "run evs c = fold step evs c"

definition auto_submissions :: "TakeExam \<Rightarrow> nat" where
  \<comment> \<open>how often \<^verbatim>\<open>handleAutoSubmit\<close> has run: each run shows its warning first\<close>
  "auto_submissions s =
     length (filter (\<lambda>t. t = Warning ''Time is up! Submitting your answers...'') (toasts s))"

definition submissions_left :: "TakeExam \<Rightarrow> nat" where
  \<comment> \<open>automatic submissions so far, and one more while an interval is set\<close>
  "submissions_left s = auto_submissions s + (if interval s = None then 0 else 1)"

subsection \<open>The score as the specification words it\<close>

definition spec_score :: "nat \<Rightarrow> nat \<Rightarrow> int" where
  \<comment> \<open>\<open>round(100 \<times> correctAnswers / totalQuestions)\<close> over the reals\<close>
  "spec_score c n = round (100 * real c / real n)"

subsection \<open>A bound on a number\<close>

fun at_most :: "nat \<Rightarrow> jsnum \<Rightarrow> bool" where
  \<comment> \<open>a finite number that is at most \<open>k\<close>\<close>
  "at_most k NaN = False"
| "at_most k Infinity = False"
| "at_most k (Finite n d) = (0 < d \<and> n \<le> k * d)"

subsection \<open>Sample sessions\<close>

definition question :: "string \<Rightarrow> string \<Rightarrow> int \<Rightarrow> Question" where
  "question i c k =
     \<lparr>qid = i, question_text = ''?'', option_a = ''a'', option_b = ''b'', option_c = ''c'',
      option_d = ''d'', correct_option = c, order_index = k\<rparr>"

definition three_questions :: "Question list" where
  "three_questions = [question ''q1'' ''A'' 0, question ''q2'' ''B'' 1, question ''q3'' ''C'' 2]"

definition forty_questions :: "Question list" where
  "forty_questions =
     map (\<lambda>(k, c). question [c] ''A'' (int k))
       (enumerate 0 ''0123456789abcdefghijklmnopqrstuvwxyzABCD'')"

definition loaded_closure :: "Question list \<Rightarrow> closure" where
  "loaded_closure qs =
     \<lparr>c_user = Some ''student-1'',
      c_exam = Some \<lparr>exam_id = ''exam-1'', exam_title = ''Sample'', exam_description = None,
                     exam_category = ''prelims'', exam_duration_minutes = 20\<rparr>,
      c_questions = qs, c_answers = Map.empty\<rparr>"

definition loaded :: "Question list \<Rightarrow> TakeExam" where
  \<comment> \<open>the state once \<^verbatim>\<open>fetchExam\<close> has loaded a 20-minute exam and its questions\<close>
  "loaded qs =
     \<lparr>user = Some ''student-1'',
      exam = Some \<lparr>exam_id = ''exam-1'', exam_title = ''Sample'', exam_description = None,
                   exam_category = ''prelims'', exam_duration_minutes = 20\<rparr>,
      questions = qs, currentIndex = 0, answers = Map.empty, timeLeft = 1200,
      loading = False, submitting = False, showSubmitDialog = False, startTime = 0,
      toasts = [], navigated = None,
      autoSubmit = loaded_closure qs, interval = Some (loaded_closure qs)\<rparr>"

definition empty_db :: results_db where
  "empty_db = \<lparr>exam_results = [], student_answers = [], requests = []\<rparr>"

definition accepting :: "string \<Rightarrow> submit_env" where
  "accepting rid = \<lparr>Date_now = 90000, result_response = Inr rid, answers_accepted = True\<rparr>"

definition answers_refused :: "string \<Rightarrow> submit_env" where
  \<comment> \<open>the attempt is inserted, the insert of the answer records is refused\<close>
  "answers_refused rid =
     \<lparr>Date_now = 90000, result_response = Inr rid, answers_accepted = False\<rparr>"

definition rejecting :: submit_env where
  "rejecting =
     \<lparr>Date_now = 90000, result_response = Inl ''Failed to fetch'', answers_accepted = True\<rparr>"

definition scenario :: TakeExam where
  \<comment> \<open>three questions: the first answered correctly, the second wrongly, the third not\<close>
  "scenario = clickOption ''q2'' ''A'' (clickOption ''q1'' ''A'' (loaded three_questions))"

definition twenty_three_of_forty :: TakeExam where
  \<comment> \<open>forty questions, the first 23 answered correctly, the others not answered\<close>
  "twenty_three_of_forty =
     fold (\<lambda>q. clickOption (qid q) (correct_option q)) (take 23 forty_questions)
       (loaded forty_questions)"

section \<open>The exam editor (ExamEditor)\<close>

datatype ExamCategory = basic | prelims | mains

datatype option_label = OptA | OptB | OptC | OptD

record ExamForm =
  title :: string
  description :: string
  category :: ExamCategory
  duration_minutes :: int
  is_active :: bool

record EditorQuestion =
  ed_id :: "string option"
  ed_question_text :: string
  ed_option_a :: string
  ed_option_b :: string
  ed_option_c :: string
  ed_option_d :: string
  ed_correct_option :: option_label
  ed_order_index :: int

fun DURATION_BY_CATEGORY :: "ExamCategory \<Rightarrow> int" where
  "DURATION_BY_CATEGORY basic = 40"
| "DURATION_BY_CATEGORY prelims = 20"
| "DURATION_BY_CATEGORY mains = 30"

definition handleCategoryChange :: "ExamCategory \<Rightarrow> ExamForm \<Rightarrow> ExamForm" where
  "handleCategoryChange c prev = prev\<lparr>category := c, duration_minutes := DURATION_BY_CATEGORY c\<rparr>"

text \<open>
  The component state of \<^verbatim>\<open>ExamEditor\<close>: the route parameter \<^verbatim>\<open>id\<close>, the signed-in
  user's id, the form (\<^verbatim>\<open>exam\<close> in the source), the question list, the toasts shown and
  the target of the last \<^verbatim>\<open>navigate\<close> call.
\<close>

record ExamEditor =
  route_id :: "string option"
  editor_user :: "string option"
  saving :: bool
  exam_form :: ExamForm
  ed_questions :: "EditorQuestion list"
  ed_toasts :: "toast list"
  ed_navigated :: "string option"

subsection \<open>The two tables written by a save\<close>

record ExamRow =
  x_title :: string
  x_description :: "string option"
  x_category :: ExamCategory
  x_duration_minutes :: int
  x_is_active :: bool
  x_created_by :: "string option"

record QuestionRow =
  qr_exam_id :: string
  qr_question_text :: string
  qr_option_a :: string
  qr_option_b :: string
  qr_option_c :: string
  qr_option_d :: string
  qr_correct_option :: option_label
  qr_order_index :: nat

datatype editor_request =
    UpdateExam string ExamRow
  | DeleteQuestions string
  | InsertExam ExamRow
  | InsertQuestions "QuestionRow list"

record editor_db =
  exams_tbl :: "(string \<times> ExamRow) list"
  questions_tbl :: "QuestionRow list"
  editor_requests :: "editor_request list"

text \<open>
  The responses of the database to the requests of one save: the error of the exam
  update, whether the delete was carried out, the error or the new id of the exam
  insert, the error of the questions insert.
\<close>

record save_env =
  update_error :: "string option"
  delete_accepted :: bool
  insert_exam_response :: "string + string"
  insert_questions_error :: "string option"

definition update_exam ::
  "string option \<Rightarrow> string \<Rightarrow> ExamRow \<Rightarrow> editor_db \<Rightarrow> string option \<times> editor_db" where
  \<comment> \<open>\<^verbatim>\<open>from('exams').update(fields).eq('id', id)\<close>; the update object has no
      \<^verbatim>\<open>created_by\<close>, which a stored row keeps\<close>
  "update_exam err eid vals db =
     (case err of
        Some e \<Rightarrow> (Some e, db\<lparr>editor_requests := editor_requests db @ [UpdateExam eid vals]\<rparr>)
      | None \<Rightarrow>
          (None, db\<lparr>exams_tbl :=
                       map (\<lambda>(i, row). if i = eid
                              then (i, vals\<lparr>x_created_by := x_created_by row\<rparr>)
                              else (i, row)) (exams_tbl db),
                     editor_requests := editor_requests db @ [UpdateExam eid vals]\<rparr>))"

definition delete_questions :: "bool \<Rightarrow> string \<Rightarrow> editor_db \<Rightarrow> editor_db" where
  \<comment> \<open>\<^verbatim>\<open>from('questions').delete().eq('exam_id', id)\<close>\<close>
  "delete_questions accepted eid db =
     (if accepted
      then db\<lparr>questions_tbl := filter (\<lambda>r. qr_exam_id r \<noteq> eid) (questions_tbl db),
               editor_requests := editor_requests db @ [DeleteQuestions eid]\<rparr>
      else db\<lparr>editor_requests := editor_requests db @ [DeleteQuestions eid]\<rparr>)"

definition insert_exam ::
  "string + string \<Rightarrow> ExamRow \<Rightarrow> editor_db \<Rightarrow> (string + string) \<times> editor_db" where
  \<comment> \<open>\<^verbatim>\<open>from('exams').insert(row).select('id').single()\<close>\<close>
  "insert_exam resp row db =
     (case resp of
        Inl e \<Rightarrow> (Inl e, db\<lparr>editor_requests := editor_requests db @ [InsertExam row]\<rparr>)
      | Inr eid \<Rightarrow>
          (Inr eid, db\<lparr>exams_tbl := exams_tbl db @ [(eid, row)],
                        editor_requests := editor_requests db @ [InsertExam row]\<rparr>))"

definition insert_questions ::
  "string option \<Rightarrow> QuestionRow list \<Rightarrow> editor_db \<Rightarrow> string option \<times> editor_db" where
  \<comment> \<open>\<^verbatim>\<open>from('questions').insert(rows)\<close>\<close>
  "insert_questions err rows db =
     (case err of
        Some e \<Rightarrow> (Some e, db\<lparr>editor_requests := editor_requests db @ [InsertQuestions rows]\<rparr>)
      | None \<Rightarrow>
          (None, db\<lparr>questions_tbl := questions_tbl db @ rows,
                     editor_requests := editor_requests db @ [InsertQuestions rows]\<rparr>))"

subsection \<open>Saving\<close>

definition is_space :: "char \<Rightarrow> bool" where
  \<comment> \<open>the white space and line terminators that \<^verbatim>\<open>trim\<close> removes, among the code units
      below 256: TAB, LF, VT, FF, CR, SP, NBSP\<close>
  "is_space c \<longleftrightarrow> of_char c \<in> {9, 10, 11, 12, 13, 32, 160 :: nat}"

definition trim :: "string \<Rightarrow> string" where
  "trim s = rev (dropWhile is_space (rev (dropWhile is_space s)))"

fun digits :: "nat \<Rightarrow> string" where
  \<comment> \<open>the decimal numeral that a template literal prints for a non-negative integer\<close>
  "digits n =
     (if n < 10 then [char_of (48 + n)] else digits (n div 10) @ [char_of (48 + n mod 10)])"

declare digits.simps [simp del]

fun first_incomplete :: "nat \<Rightarrow> EditorQuestion list \<Rightarrow> nat option" where
  \<comment> \<open>the validation loop: the index of the first question with a blank field\<close>
  "first_incomplete i [] = None"
| "first_incomplete i (q # qs) =
     (if trim (ed_question_text q) = [] \<or> trim (ed_option_a q) = [] \<or> trim (ed_option_b q) = []
         \<or> trim (ed_option_c q) = [] \<or> trim (ed_option_d q) = []
      then Some i else first_incomplete (Suc i) qs)"

definition validation_error :: "ExamEditor \<Rightarrow> string option" where
  \<comment> \<open>the checks of \<^verbatim>\<open>handleSave\<close> that return before anything is written, in their order\<close>
  "validation_error s =
     (if trim (title (exam_form s)) = [] then Some ''Please enter an exam title''
      else if length (ed_questions s) = 0 then Some ''Please add at least one question''
      else (case first_incomplete 0 (ed_questions s) of
              Some i \<Rightarrow> Some (''Please fill in all fields for question '' @ digits (i + 1))
            | None \<Rightarrow> None))"

definition isEditing :: "ExamEditor \<Rightarrow> bool" where
  \<comment> \<open>\<^verbatim>\<open>!!id\<close>: the route has an id and it is not the empty string\<close>
  "isEditing s = (case route_id s of None \<Rightarrow> False | Some i \<Rightarrow> i \<noteq> [])"

definition exam_fields :: "ExamEditor \<Rightarrow> string option \<Rightarrow> ExamRow" where
  \<comment> \<open>the object passed to the exam update and insert; \<^verbatim>\<open>exam.description || null\<close>\<close>
  "exam_fields s creator =
     \<lparr>x_title = title (exam_form s),
      x_description = (if description (exam_form s) = [] then None
                       else Some (description (exam_form s))),
      x_category = category (exam_form s),
      x_duration_minutes = duration_minutes (exam_form s),
      x_is_active = is_active (exam_form s),
      x_created_by = creator\<rparr>"

definition questionsToInsert :: "string \<Rightarrow> EditorQuestion list \<Rightarrow> QuestionRow list" where
  \<comment> \<open>\<^verbatim>\<open>questions.map((q, index) => ...)\<close>\<close>
  "questionsToInsert examId qs =
     map (\<lambda>(index, q).
            \<lparr>qr_exam_id = examId, qr_question_text = ed_question_text q,
             qr_option_a = ed_option_a q, qr_option_b = ed_option_b q,
             qr_option_c = ed_option_c q, qr_option_d = ed_option_d q,
             qr_correct_option = ed_correct_option q, qr_order_index = index\<rparr>)
         (enumerate 0 qs)"

definition save_exam :: "save_env \<Rightarrow> ExamEditor \<Rightarrow> editor_db \<Rightarrow> (string + string) \<times> editor_db" where
  \<comment> \<open>the first half of the \<^verbatim>\<open>try\<close> block: on the edit path the exam is updated
      (an error is thrown) and its questions are deleted (the response is not looked
      at); on the create path the exam is inserted and its new id is taken\<close>
  "save_exam env s db =
     (case (if isEditing s then route_id s else None) of
        Some i \<Rightarrow>
          (case update_exam (update_error env) i (exam_fields s None) db of
             (Some e, db') \<Rightarrow> (Inl e, db')
           | (None, db') \<Rightarrow> (Inr i, delete_questions (delete_accepted env) i db'))
      | None \<Rightarrow> insert_exam (insert_exam_response env) (exam_fields s (editor_user s)) db)"

definition handleSave :: "save_env \<Rightarrow> ExamEditor \<Rightarrow> editor_db \<Rightarrow> ExamEditor \<times> editor_db" where
  "handleSave env s db =
     (case validation_error s of
        Some msg \<Rightarrow> (s\<lparr>ed_toasts := ed_toasts s @ [Error msg]\<rparr>, db)
      | None \<Rightarrow>
          (case save_exam env s db of
             (Inl e, db') \<Rightarrow>
               (s\<lparr>ed_toasts := ed_toasts s @ [Error ''Failed to save exam''], saving := False\<rparr>, db')
           | (Inr examId, db') \<Rightarrow>
               (case insert_questions (insert_questions_error env)
                       (questionsToInsert examId (ed_questions s)) db' of
                  (Some e, db'') \<Rightarrow>
                    (s\<lparr>ed_toasts := ed_toasts s @ [Error ''Failed to save exam''],
                       saving := False\<rparr>, db'')
                | (None, db'') \<Rightarrow>
                    (s\<lparr>ed_toasts := ed_toasts s @
                         [Success (if isEditing s then ''Exam updated successfully''
                                   else ''Exam created successfully'')],
                       ed_navigated := Some ''/admin/exams'',
                       saving := False\<rparr>, db''))))"

subsection \<open>Sample editor sessions\<close>

definition draft :: "string \<Rightarrow> option_label \<Rightarrow> int \<Rightarrow> EditorQuestion" where
  "draft txt c k =
     \<lparr>ed_id = None, ed_question_text = txt, ed_option_a = ''a'', ed_option_b = ''b'',
      ed_option_c = ''c'', ed_option_d = ''d'', ed_correct_option = c, ed_order_index = k\<rparr>"

definition stored :: "string \<Rightarrow> string \<Rightarrow> nat \<Rightarrow> QuestionRow" where
  "stored eid txt k =
     \<lparr>qr_exam_id = eid, qr_question_text = txt, qr_option_a = ''a'', qr_option_b = ''b'',
      qr_option_c = ''c'', qr_option_d = ''d'', qr_correct_option = OptA, qr_order_index = k\<rparr>"

definition editor :: "string option \<Rightarrow> ExamEditor" where
  \<comment> \<open>two questions in the list, whose own order indices are 5 and 5\<close>
  "editor rid =
     \<lparr>route_id = rid, editor_user = Some ''admin-1'', saving = False,
      exam_form = \<lparr>title = ''Algebra'', description = [], category = prelims,
                    duration_minutes = 20, is_active = True\<rparr>,
      ed_questions = [draft ''first'' OptB 5, draft ''second'' OptC 5],
      ed_toasts = [], ed_navigated = None\<rparr>"

definition stored_db :: editor_db where
  \<comment> \<open>exam \<open>e1\<close> with three stored questions, exam \<open>e2\<close> with one\<close>
  "stored_db =
     \<lparr>exams_tbl =
        [(''e1'', \<lparr>x_title = ''Old'', x_description = None, x_category = basic,
                   x_duration_minutes = 40, x_is_active = True, x_created_by = Some ''admin-1''\<rparr>),
         (''e2'', \<lparr>x_title = ''Other'', x_description = None, x_category = mains,
                   x_duration_minutes = 30, x_is_active = True, x_created_by = Some ''admin-1''\<rparr>)],
      questions_tbl = [stored ''e1'' ''x'' 0, stored ''e2'' ''y'' 0, stored ''e1'' ''z'' 7,
                       stored ''e1'' ''w'' 7],
      editor_requests = []\<rparr>"

definition delete_refused :: save_env where
  \<comment> \<open>every request of an edit is carried out but the delete of the old questions\<close>
  "delete_refused =
     \<lparr>update_error = None, delete_accepted = False, insert_exam_response = Inl ''not sent'',
      insert_questions_error = None\<rparr>"

definition all_accepted :: "string \<Rightarrow> save_env" where
  "all_accepted new_id =
     \<lparr>update_error = None, delete_accepted = True, insert_exam_response = Inr new_id,
      insert_questions_error = None\<rparr>"

section \<open>Sign-up (useAuth)\<close>

datatype app_role = admin | student

record RoleRow =
  rr_id :: string
  rr_user_id :: string
  rr_role :: app_role

record AuthUser =
  au_id :: string
  au_email :: string
  au_full_name :: "string option"

record Profile =
  pf_user_id :: string
  pf_email :: string
  pf_full_name :: string

datatype auth_request =
    SelectAdminRole
  | AuthSignUp string string
  | InsertUserRole string app_role

text \<open>
  The accounts side of the database: the identity provider's users, the profiles and
  the role rows, the user id of the session that the client's requests carry
  (\<^verbatim>\<open>auth.uid()\<close>, \<open>None\<close> for a visitor who is not signed in), and the requests received.
\<close>

record auth_db =
  auth_users :: "AuthUser list"
  profiles :: "Profile list"
  user_roles :: "RoleRow list"
  session_uid :: "string option"
  auth_requests :: "auth_request list"

text \<open>
  What the identity provider answers to \<^verbatim>\<open>auth.signUp\<close>: an error, or the new user
  with or without a session for it (no session while the email address is to be
  confirmed), or neither user nor error.
\<close>

datatype signup_response = SignUpError string | SignedUp string bool | NoUser

record signup_env =
  select_answered :: bool
  provider_response :: signup_response
  role_insert_fault :: "string option"
  new_role_id :: string

subsection \<open>The row-level policies of the migration\<close>

definition has_role :: "auth_db \<Rightarrow> string option \<Rightarrow> app_role \<Rightarrow> bool" where
  \<comment> \<open>\<^verbatim>\<open>public.has_role(_user_id, _role)\<close>; a null user id equals no row's\<close>
  "has_role db uid r =
     (case uid of
        None \<Rightarrow> False
      | Some u \<Rightarrow> \<exists>row \<in> set (user_roles db). rr_user_id row = u \<and> rr_role row = r)"

definition can_select_role :: "auth_db \<Rightarrow> RoleRow \<Rightarrow> bool" where
  \<comment> \<open>the two SELECT policies of \<^verbatim>\<open>user_roles\<close>: "Users can view their own role"
      (\<^verbatim>\<open>auth.uid() = user_id\<close>) or "Admins can view all roles"
      (\<^verbatim>\<open>has_role(auth.uid(), 'admin')\<close>)\<close>
  "can_select_role db row \<longleftrightarrow>
     session_uid db = Some (rr_user_id row) \<or> has_role db (session_uid db) admin"

definition can_insert_role :: "auth_db \<Rightarrow> string \<Rightarrow> bool" where
  \<comment> \<open>the INSERT policy of \<^verbatim>\<open>user_roles\<close>: "Users can insert their own role"
      (\<^verbatim>\<open>auth.uid() = user_id\<close>)\<close>
  "can_insert_role db uid \<longleftrightarrow> session_uid db = Some uid"

definition handle_new_user :: "AuthUser \<Rightarrow> Profile" where
  \<comment> \<open>the trigger on \<^verbatim>\<open>auth.users\<close>:
      \<^verbatim>\<open>COALESCE(NEW.raw_user_meta_data->>'full_name', 'User')\<close>\<close>
  "handle_new_user u =
     \<lparr>pf_user_id = au_id u, pf_email = au_email u,
      pf_full_name = (case au_full_name u of None \<Rightarrow> ''User'' | Some n \<Rightarrow> n)\<rparr>"

subsection \<open>The three requests of \<^verbatim>\<open>signUp\<close>\<close>

definition select_admin_role :: "bool \<Rightarrow> auth_db \<Rightarrow> string list option \<times> auth_db" where
  \<comment> \<open>\<^verbatim>\<open>from('user_roles').select('id').eq('role', 'admin').limit(1)\<close>: the ids of the
      rows the policies let the session see, at most one; \<open>None\<close> is the null data of a
      request that failed\<close>
  "select_admin_role answered db =
     (if answered
      then Some (take 1 (map rr_id
             (filter (\<lambda>row. rr_role row = admin) (filter (can_select_role db) (user_roles db)))))
      else None,
      db\<lparr>auth_requests := auth_requests db @ [SelectAdminRole]\<rparr>)"

definition auth_signUp ::
  "signup_response \<Rightarrow> string \<Rightarrow> string \<Rightarrow> auth_db \<Rightarrow> (string + string option) \<times> auth_db" where
  \<comment> \<open>\<^verbatim>\<open>supabase.auth.signUp\<close> with \<^verbatim>\<open>full_name\<close> in the user's metadata: a new user
      is a new row of \<^verbatim>\<open>auth.users\<close>, on which the trigger adds the profile; with a
      session the client is signed in as the new user from then on\<close>
  "auth_signUp resp email fullName db =
     (case resp of
        SignUpError e \<Rightarrow>
          (Inl e, db\<lparr>auth_requests := auth_requests db @ [AuthSignUp email fullName]\<rparr>)
      | NoUser \<Rightarrow>
          (Inr None, db\<lparr>auth_requests := auth_requests db @ [AuthSignUp email fullName]\<rparr>)
      | SignedUp uid with_session \<Rightarrow>
          (let u = \<lparr>au_id = uid, au_email = email, au_full_name = Some fullName\<rparr>
           in (Inr (Some uid),
               db\<lparr>auth_users := auth_users db @ [u],
                  profiles := profiles db @ [handle_new_user u],
                  session_uid := (if with_session then Some uid else session_uid db),
                  auth_requests := auth_requests db @ [AuthSignUp email fullName]\<rparr>)))"

definition insert_user_role ::
  "signup_env \<Rightarrow> string \<Rightarrow> app_role \<Rightarrow> auth_db \<Rightarrow> string option \<times> auth_db" where
  \<comment> \<open>\<^verbatim>\<open>from('user_roles').insert({ user_id, role })\<close>: refused by a fault of the
      request or by the INSERT policy\<close>
  "insert_user_role env uid r db =
     (case role_insert_fault env of
        Some e \<Rightarrow> (Some e, db\<lparr>auth_requests := auth_requests db @ [InsertUserRole uid r]\<rparr>)
      | None \<Rightarrow>
          if can_insert_role db uid
          then (None,
                db\<lparr>user_roles := user_roles db @
                      [\<lparr>rr_id = new_role_id env, rr_user_id = uid, rr_role = r\<rparr>],
                   auth_requests := auth_requests db @ [InsertUserRole uid r]\<rparr>)
          else (Some ''new row violates row-level security policy for table user_roles'',
                db\<lparr>auth_requests := auth_requests db @ [InsertUserRole uid r]\<rparr>))"

subsection \<open>\<^verbatim>\<open>signUp\<close>\<close>

definition admin_exists_error :: string where
  "admin_exists_error = ''An admin account already exists. Only one admin is allowed.''"

definition signUp ::
  "signup_env \<Rightarrow> string \<Rightarrow> string \<Rightarrow> string \<Rightarrow> app_role \<Rightarrow> app_role option \<times> auth_db
     \<Rightarrow> string option \<times> app_role option \<times> auth_db" where
  \<comment> \<open>the result is the message of the returned error (\<open>None\<close> for \<^verbatim>\<open>{ error: null }\<close>),
      the \<^verbatim>\<open>role\<close> state of the provider and the database\<close>
  "signUp env email password fullName userRole c =
     (case c of (role, db) \<Rightarrow>
        (let (existingAdmin, db1) =
               (if userRole = admin then select_admin_role (select_answered env) db
                else (None, db))
         in if userRole = admin
               \<and> (case existingAdmin of None \<Rightarrow> False | Some rows \<Rightarrow> length rows > 0)
            then (Some admin_exists_error, role, db1)
            else (case auth_signUp (provider_response env) email fullName db1 of
                    (Inl e, db2) \<Rightarrow> (Some e, role, db2)
                  | (Inr None, db2) \<Rightarrow> (None, role, db2)
                  | (Inr (Some uid), db2) \<Rightarrow>
                      (case insert_user_role env uid userRole db2 of
                         (Some e, db3) \<Rightarrow> (Some e, role, db3)
                       | (None, db3) \<Rightarrow> (None, Some userRole, db3)))))"

subsection \<open>A sample accounts database\<close>

definition one_admin :: "string option \<Rightarrow> auth_db" where
  \<comment> \<open>one account, holding the admin role; the client's session is the argument\<close>
  "one_admin session =
     \<lparr>auth_users = [\<lparr>au_id = ''u1'', au_email = ''first@example.com'', au_full_name = Some ''First''\<rparr>],
      profiles = [\<lparr>pf_user_id = ''u1'', pf_email = ''first@example.com'', pf_full_name = ''First''\<rparr>],
      user_roles = [\<lparr>rr_id = ''r1'', rr_user_id = ''u1'', rr_role = admin\<rparr>],
      session_uid = session,
      auth_requests = []\<rparr>"

definition provider_accepts :: "bool \<Rightarrow> signup_env" where
  "provider_accepts with_session =
     \<lparr>select_answered = True, provider_response = SignedUp ''u2'' with_session,
      role_insert_fault = None, new_role_id = ''r2''\<rparr>"

section \<open>The scoring arithmetic\<close>

lemma bitlen_bounds: "0 < n \<Longrightarrow> 2 ^ (bitlen n - 1) \<le> n \<and> n < 2 ^ bitlen n"
proof (induction n rule: bitlen.induct)
  case (1 n)
  show ?case
  proof (cases "n div 2 = 0")
    case True
    with "1.prems" have "n = 1" by (simp add: div_eq_0_iff)
    then show ?thesis by (simp add: bitlen.simps)
  next
    case False
    then have pos: "0 < n div 2" by simp
    from "1.IH" [OF _ pos] "1.prems"
    have ih: "2 ^ (bitlen (n div 2) - 1) \<le> n div 2" "n div 2 < 2 ^ bitlen (n div 2)" by auto
    have bl: "bitlen n = Suc (bitlen (n div 2))"
      using "1.prems" by (subst bitlen.simps) simp
    have blpos: "0 < bitlen (n div 2)"
      using pos by (subst bitlen.simps) simp
    then obtain k where k: "bitlen (n div 2) = Suc k" by (cases "bitlen (n div 2)") auto
    from ih(1) k have "2 * 2 ^ k \<le> n" by simp
    moreover from ih(2) have "n < 2 * 2 ^ bitlen (n div 2)" by arith
    ultimately show ?thesis by (simp add: bl k)
  qed
qed

lemma floor_log2_le:
  assumes "0 < a" "0 < b" "a \<le> b * 2 ^ k"
  shows "floor_log2 a b \<le> int k"
proof (rule ccontr)
  assume "\<not> floor_log2 a b \<le> int k"
  then have gt: "int k < floor_log2 a b" by simp
  define d where "d = int (bitlen a) - int (bitlen b)"
  have "floor_log2 a b \<le> d"
    by (simp add: floor_log2_def d_def Let_def)
  with gt have dk: "int k < d" by simp
  then have "bitlen b + k < bitlen a" by (simp add: d_def)
  then have "bitlen b + k \<le> bitlen a - 1" by simp
  then have "(2::nat) ^ (bitlen b + k) \<le> 2 ^ (bitlen a - 1)"
    by (intro power_increasing) auto
  also have "\<dots> \<le> a" using bitlen_bounds [OF assms(1)] by simp
  finally have "2 ^ bitlen b * 2 ^ k \<le> a" by (simp add: power_add)
  moreover have "b * 2 ^ k < 2 ^ bitlen b * 2 ^ k"
    using bitlen_bounds [OF assms(2)] by simp
  ultimately show False using assms(3) by simp
qed

lemma round_ties_even_le:
  assumes "0 < d" "n \<le> k * d"
  shows "round_ties_even n d \<le> k"
proof (cases "n div d < k")
  case True
  then show ?thesis by (simp add: round_ties_even_def Let_def)
next
  case False
  then have "k \<le> n div d" by simp
  then have "k * d \<le> n div d * d" by simp
  also have "\<dots> \<le> n" by simp
  finally have eq: "n = k * d" using assms(2) by simp
  with assms(1) show ?thesis by (simp add: round_ties_even_def Let_def)
qed

lemma to_double_at_most:
  assumes "0 < b" "a \<le> k * b" "k \<le> 2 ^ 52"
  shows "at_most k (to_double a b)"
proof (cases "a = 0")
  case True
  then show ?thesis by (simp add: to_double_def)
next
  case False
  then have apos: "0 < a" by simp
  have "k * b \<le> 2 ^ 52 * b" using assms(3) by (rule mult_le_mono1)
  with assms(2) have "a \<le> 2 ^ 52 * b" by (rule order_trans)
  then have "a \<le> b * 2 ^ 52" by (simp only: mult.commute)
  from floor_log2_le [OF apos assms(1) this]
  have s: "0 \<le> 52 - floor_log2 a b" by simp
  define s where "s = nat (52 - floor_log2 a b)"
  have "a * 2 ^ s \<le> (k * 2 ^ s) * b"
    using assms(2) by (simp add: mult.commute mult.left_commute)
  from round_ties_even_le [OF assms(1) this]
  show ?thesis using False s by (simp add: to_double_def Let_def s_def)
qed

lemma score_of_bounds:
  assumes "0 < n" "c \<le> n"
  shows "\<exists>k. score_of c n = Some k \<and> 0 \<le> k \<and> k \<le> 100"
proof -
  have "at_most 1 (js_div c n)"
    using assms to_double_at_most [of n c 1] by (simp add: js_div_def)
  then obtain x d where xd: "js_div c n = Finite x d" "0 < d" "x \<le> d"
    by (cases "js_div c n") auto
  have "at_most 100 (to_double (x * 100) d)"
    using xd by (intro to_double_at_most) auto
  then obtain y e where ye: "to_double (x * 100) d = Finite y e" "0 < e" "y \<le> 100 * e"
    by (cases "to_double (x * 100) d") auto
  have "(2 * y + e) div (2 * e) \<le> (201 * e) div (2 * e)"
    using ye by (intro div_le_mono) simp
  also have "\<dots> = 100" using ye(2) by simp
  finally show ?thesis by (simp add: score_of_def xd ye)
qed

lemma correctCount_fold:
  "fold (\<lambda>q c. if ans (qid q) = Some (correct_option q) then c + 1 else c) qs k =
     k + length (filter (\<lambda>q. ans (qid q) = Some (correct_option q)) qs)"
  by (induction qs arbitrary: k) simp_all

lemma correctCount_filter:
  "correctCount qs ans = length (filter (\<lambda>q. ans (qid q) = Some (correct_option q)) qs)"
  by (simp add: correctCount_def correctCount_fold)

lemma correctCount_le: "correctCount qs ans \<le> length qs"
  by (simp add: correctCount_filter)

subsection \<open>Evaluating the arithmetic\<close>

lemma bitlen_numeral [simp]:
  "bitlen 0 = 0"
  "bitlen 1 = 1"
  "bitlen (numeral (Num.Bit0 k)) = Suc (bitlen (numeral k))"
  "bitlen (numeral (Num.Bit1 k)) = Suc (bitlen (numeral k))"
  by (subst bitlen.simps, simp add: bitlen.simps)+

lemma js_div_23_40: "js_div 23 40 = Finite 5179139571476070 9007199254740992"
  by (simp add: js_div_def to_double_def floor_log2_def round_ties_even_def Let_def)

lemma js_mul_23_40: "js_mul (js_div 23 40) 100 = Finite 8092405580431359 140737488355328"
  by (simp add: js_div_23_40 to_double_def floor_log2_def round_ties_even_def Let_def)

lemma score_23_of_40: "score_of 23 40 = Some 57"
  by (simp add: score_of_def js_mul_23_40)

lemma score_1_of_3: "score_of 1 3 = Some 33"
  by (simp add: score_of_def js_div_def to_double_def floor_log2_def round_ties_even_def Let_def)

lemma spec_23_40: "spec_score 23 40 = 58"
  by (simp add: spec_score_def round_def)

section \<open>The sample sessions\<close>

lemmas sample_defs = question_def three_questions_def forty_questions_def loaded_def empty_db_def
  accepting_def rejecting_def answers_refused_def scenario_def twenty_three_of_forty_def
  selectAnswer_def clickOption_def new_handleAutoSubmit_def capture_def loaded_closure_def

lemma scenario_fields:
  "user scenario = Some ''student-1''"
  "exam scenario = Some \<lparr>exam_id = ''exam-1'', exam_title = ''Sample'', exam_description = None,
                   exam_category = ''prelims'', exam_duration_minutes = 20\<rparr>"
  "questions scenario = three_questions"
  "timeLeft scenario = 1200" "navigated scenario = None" "toasts scenario = []"
  "startTime scenario = 0" "currentIndex scenario = 0" "submitting scenario = False"
  by (simp_all add: sample_defs)

lemma scenario_answers:
  "answers scenario ''q1'' = Some ''A''" "answers scenario ''q2'' = Some ''A''"
  "answers scenario ''q3'' = None"
  by (simp_all add: sample_defs)

lemma scenario_correctCount: "correctCount (questions scenario) (answers scenario) = 1"
  by (simp add: correctCount_def scenario_fields scenario_answers three_questions_def question_def)

lemma scenario_length: "length (questions scenario) = 3"
  by (simp add: scenario_fields three_questions_def)

lemma scenario_payload:
  "result_payload (accepting rid) ''student-1''
     \<lparr>exam_id = ''exam-1'', exam_title = ''Sample'', exam_description = None,
      exam_category = ''prelims'', exam_duration_minutes = 20\<rparr> scenario =
   \<lparr>er_user_id = ''student-1'', er_exam_id = ''exam-1'', er_score = Some 33,
    er_total_questions = 3, er_correct_answers = 1, er_time_taken_seconds = 90\<rparr>"
  using score_1_of_3
  by (simp add: result_payload_def scenario_correctCount scenario_length
      scenario_fields(7) accepting_def)

lemma forty_fields:
  "user twenty_three_of_forty = Some ''student-1''"
  "exam twenty_three_of_forty = Some \<lparr>exam_id = ''exam-1'', exam_title = ''Sample'', exam_description = None,
                   exam_category = ''prelims'', exam_duration_minutes = 20\<rparr>"
  "length (questions twenty_three_of_forty) = 40"
  "correctCount (questions twenty_three_of_forty) (answers twenty_three_of_forty) = 23"
  by (simp_all add: sample_defs correctCount_def)

section \<open>Navigation\<close>

text \<open>
  Claim C6. For every navigation request \<open>goToQuestion index\<close>: if
  \<open>0 \<le> index < questions.length\<close> then \<open>currentIndex\<close> becomes \<open>index\<close> and nothing
  else changes; otherwise the request is ignored: the function returns normally and the
  whole state, \<open>currentIndex\<close> included, is the one before.
\<close>

theorem goToQuestion_in_range_or_ignored:
  "(0 \<le> i \<and> i < int (length (questions s)) \<longrightarrow> goToQuestion i s = s\<lparr>currentIndex := i\<rparr>)
   \<and> (\<not> (0 \<le> i \<and> i < int (length (questions s))) \<longrightarrow> goToQuestion i s = s)"
  by (simp add: goToQuestion_def)

theorem goToQuestion_in_range_or_ignored_witness:
  "length (questions scenario) = 3
   \<and> goToQuestion 2 scenario = scenario\<lparr>currentIndex := 2\<rparr>
   \<and> goToQuestion 3 scenario = scenario
   \<and> goToQuestion (- 1) scenario = scenario"
  using goToQuestion_in_range_or_ignored [of 2 scenario]
    goToQuestion_in_range_or_ignored [of 3 scenario]
    goToQuestion_in_range_or_ignored [of "- 1" scenario]
  by (simp add: scenario_fields three_questions_def)

section \<open>Submission\<close>

lemma seen_by_capture [simp]: "seen_by (capture s) s = s"
  by (simp add: seen_by_def capture_def)

lemma capture_sel [simp]:
  "c_user (capture s) = user s" "c_exam (capture s) = exam s"
  "c_questions (capture s) = questions s" "c_answers (capture s) = answers s"
  by (simp_all add: capture_def)

lemma result_payload_seen_by:
  "result_payload env u e (seen_by cl s)
     = result_payload env u e (s\<lparr>questions := c_questions cl, answers := c_answers cl\<rparr>)"
  by (simp add: result_payload_def seen_by_def)

lemma submitExam_no_session:
  "user s = None \<or> exam s = None \<Longrightarrow> submitExam env s db = (s, db)"
  by (auto simp: submitExam_def submitExam_start_def submitExam_start_from_def
      split: option.splits)

lemma submitExam_accepted:
  assumes "user s = Some u" "exam s = Some e" "result_response env = Inr rid"
  shows "submitExam env s db =
     (s\<lparr>toasts := toasts s @ [Success ''Exam submitted successfully!''],
        navigated := Some (''/student/result/'' @ rid), submitting := False, interval := None\<rparr>,
      insert_student_answers (answers_accepted env)
        (answersToInsert rid (questions s) (answers s))
        (db\<lparr>exam_results := exam_results db @ [(rid, result_payload env u e s)],
            requests := requests db @ [InsertExamResult (result_payload env u e s)]\<rparr>))"
  using assms
  by (simp add: submitExam_def submitExam_start_def submitExam_start_from_def
      submitExam_finish_def insert_exam_result_def navigate_def)

lemma submitExam_rejected:
  assumes "user s = Some u" "exam s = Some e" "result_response env = Inl err"
  shows "submitExam env s db =
     (s\<lparr>toasts := toasts s @ [Error ''Failed to submit exam''], submitting := False\<rparr>,
      db\<lparr>requests := requests db @ [InsertExamResult (result_payload env u e s)]\<rparr>)"
  using assms
  by (simp add: submitExam_def submitExam_start_def submitExam_start_from_def
      submitExam_finish_def insert_exam_result_def)

lemma submitExam_cases:
  obtains (Guard) "user s = None \<or> exam s = None" "submitExam env s db = (s, db)"
  | (Accepted) u e rid where "user s = Some u" "exam s = Some e" "result_response env = Inr rid"
  | (Rejected) u e err where "user s = Some u" "exam s = Some e" "result_response env = Inl err"
proof (cases "user s")
  case None
  then show ?thesis using Guard submitExam_no_session by blast
next
  case u: (Some u)
  show ?thesis
  proof (cases "exam s")
    case None
    then show ?thesis using Guard submitExam_no_session by blast
  next
    case e: (Some e)
    show ?thesis
    proof (cases "result_response env")
      case (Inl err)
      with u e show ?thesis by (rule Rejected)
    next
      case (Inr rid)
      with u e show ?thesis by (rule Accepted)
    qed
  qed
qed

lemma or_null_simps:
  "or_null None = None" "x \<noteq> [] \<Longrightarrow> or_null (Some x) = Some x" "or_null (Some []) = None"
  by (simp_all add: or_null_def)

subsection \<open>The answer records of one call\<close>

text \<open>
  What a call of \<open>submitExam\<close> sends for an exam with N questions: after the attempt's
  insert, one insert request with N answer records, one per question in the order of
  the questions, built from the answers that the call reads. They are added to the
  table only when the database carries that request out.
\<close>

lemma submitExam_answer_records:
  assumes "user s = Some u" "exam s = Some e" "result_response env = Inr rid"
  shows "\<exists>rows. last (requests (snd (submitExam env s db))) = InsertStudentAnswers rows
     \<and> (answers_accepted env \<longrightarrow>
          student_answers (snd (submitExam env s db)) = student_answers db @ rows)
     \<and> length rows = length (questions s)
     \<and> (\<forall>i < length (questions s).
          sa_result_id (rows ! i) = rid
        \<and> sa_question_id (rows ! i) = qid (questions s ! i)
        \<and> sa_is_correct (rows ! i)
            = (answers s (qid (questions s ! i)) = Some (correct_option (questions s ! i)))
        \<and> (answers s (qid (questions s ! i)) = None \<longrightarrow> sa_selected_option (rows ! i) = None)
        \<and> (\<forall>x. answers s (qid (questions s ! i)) = Some x \<and> x \<noteq> []
              \<longrightarrow> sa_selected_option (rows ! i) = Some x))"
proof (intro exI conjI)
  show "last (requests (snd (submitExam env s db)))
      = InsertStudentAnswers (answersToInsert rid (questions s) (answers s))"
    using assms by (simp add: submitExam_accepted insert_student_answers_def)
  show "answers_accepted env \<longrightarrow> student_answers (snd (submitExam env s db))
      = student_answers db @ answersToInsert rid (questions s) (answers s)"
    using assms by (simp add: submitExam_accepted insert_student_answers_def)
  show "length (answersToInsert rid (questions s) (answers s)) = length (questions s)"
    by (simp add: answersToInsert_def)
  show "\<forall>i < length (questions s).
          sa_result_id (answersToInsert rid (questions s) (answers s) ! i) = rid
        \<and> sa_question_id (answersToInsert rid (questions s) (answers s) ! i) = qid (questions s ! i)
        \<and> sa_is_correct (answersToInsert rid (questions s) (answers s) ! i)
            = (answers s (qid (questions s ! i)) = Some (correct_option (questions s ! i)))
        \<and> (answers s (qid (questions s ! i)) = None
             \<longrightarrow> sa_selected_option (answersToInsert rid (questions s) (answers s) ! i) = None)
        \<and> (\<forall>x. answers s (qid (questions s ! i)) = Some x \<and> x \<noteq> []
              \<longrightarrow> sa_selected_option (answersToInsert rid (questions s) (answers s) ! i) = Some x)"
    by (simp add: answersToInsert_def or_null_simps)
qed

text \<open>
  The scenario of the specification, submitted by hand with every request carried out:
  question 1 answered correctly, question 2 wrongly, question 3 not at all.
\<close>

lemma submitExam_answer_records_scenario:
  "user scenario = Some ''student-1'' \<and> exam scenario \<noteq> None
   \<and> result_response (accepting ''r1'') = Inr ''r1'' \<and> answers_accepted (accepting ''r1'')
   \<and> student_answers (snd (submitExam (accepting ''r1'') scenario empty_db)) =
       [\<lparr>sa_result_id = ''r1'', sa_question_id = ''q1'', sa_selected_option = Some ''A'', sa_is_correct = True\<rparr>,
        \<lparr>sa_result_id = ''r1'', sa_question_id = ''q2'', sa_selected_option = Some ''A'', sa_is_correct = False\<rparr>,
        \<lparr>sa_result_id = ''r1'', sa_question_id = ''q3'', sa_selected_option = None, sa_is_correct = False\<rparr>]"
proof -
  have u: "user scenario = Some ''student-1''" by (simp add: sample_defs)
  have e: "exam scenario = Some \<lparr>exam_id = ''exam-1'', exam_title = ''Sample'', exam_description = None,
                   exam_category = ''prelims'', exam_duration_minutes = 20\<rparr>" by (simp add: sample_defs)
  have r: "result_response (accepting ''r1'') = Inr ''r1''" by (simp add: sample_defs)
  have a: "answers_accepted (accepting ''r1'')" by (simp add: sample_defs)
  have q: "questions scenario = three_questions" by (simp add: sample_defs)
  from submitExam_answer_records [OF u e r, of empty_db] a
  obtain rows where rows: "student_answers (snd (submitExam (accepting ''r1'') scenario empty_db)) = student_answers empty_db @ rows"
    "length rows = 3"
    and each: "\<forall>i<3. sa_result_id (rows ! i) = ''r1''
        \<and> sa_question_id (rows ! i) = qid (three_questions ! i)
        \<and> sa_is_correct (rows ! i)
            = (answers scenario (qid (three_questions ! i)) = Some (correct_option (three_questions ! i)))
        \<and> (answers scenario (qid (three_questions ! i)) = None \<longrightarrow> sa_selected_option (rows ! i) = None)
        \<and> (\<forall>x. answers scenario (qid (three_questions ! i)) = Some x \<and> x \<noteq> []
              \<longrightarrow> sa_selected_option (rows ! i) = Some x)"
    by (auto simp: q three_questions_def)
  from rows(2) obtain r0 r1 r2 where rs: "rows = [r0, r1, r2]"
    by (auto simp: length_Suc_conv numeral_3_eq_3)
  from each [rule_format, of 0] have "r0 = \<lparr>sa_result_id = ''r1'', sa_question_id = ''q1'', sa_selected_option = Some ''A'', sa_is_correct = True\<rparr>"
    by (simp add: rs sample_defs)
  moreover from each [rule_format, of 1] have "r1 = \<lparr>sa_result_id = ''r1'', sa_question_id = ''q2'', sa_selected_option = Some ''A'', sa_is_correct = False\<rparr>"
    by (simp add: rs sample_defs)
  moreover from each [rule_format, of 2] have "r2 = \<lparr>sa_result_id = ''r1'', sa_question_id = ''q3'', sa_selected_option = None, sa_is_correct = False\<rparr>"
    by (simp add: rs sample_defs)
  ultimately show ?thesis using rows(1) u e r a by (simp add: rs empty_db_def)
qed

subsection \<open>The attempt row\<close>

lemma attempt_counts_matching_answers:
  "er_correct_answers (result_payload env u e s)
     = length (filter (\<lambda>q. answers s (qid q) = Some (correct_option q)) (questions s))
   \<and> er_total_questions (result_payload env u e s) = length (questions s)
   \<and> er_score (result_payload env u e s)
     = score_of (er_correct_answers (result_payload env u e s))
         (er_total_questions (result_payload env u e s))"
  by (simp add: result_payload_def correctCount_filter)

text \<open>
  Claim C9. Every attempt row created by a submission over a non-empty question list
  has \<open>total_questions\<close> equal to the number of loaded questions,
  \<open>0 \<le> correct_answers \<le> total_questions\<close>, and a score that is an integer with
  \<open>0 \<le> score \<le> 100\<close>.
\<close>

theorem attempt_row_bounds:
  assumes "user s = Some u" "exam s = Some e" "questions s \<noteq> []"
    and "result_response env = Inr rid"
  shows "\<exists>row k. exam_results (snd (submitExam env s db)) = exam_results db @ [(rid, row)]
     \<and> er_total_questions row = length (questions s)
     \<and> 0 \<le> er_correct_answers row \<and> er_correct_answers row \<le> er_total_questions row
     \<and> er_score row = Some k \<and> 0 \<le> k \<and> k \<le> 100"
proof -
  let ?row = "result_payload env u e s"
  have stored: "exam_results (snd (submitExam env s db)) = exam_results db @ [(rid, ?row)]"
    using assms by (simp add: submitExam_accepted insert_student_answers_def)
  have n: "0 < length (questions s)" using assms(3) by simp
  from score_of_bounds [OF n correctCount_le]
  obtain k where k: "score_of (correctCount (questions s) (answers s)) (length (questions s)) = Some k"
    "0 \<le> k" "k \<le> 100" by blast
  have "er_total_questions ?row = length (questions s)"
    and "er_correct_answers ?row \<le> er_total_questions ?row"
    and "er_score ?row = Some k"
    by (simp_all add: result_payload_def correctCount_le k)
  with stored k(2,3) show ?thesis by blast
qed

theorem attempt_row_bounds_witness:
  "user scenario = Some ''student-1'' \<and> exam scenario \<noteq> None \<and> questions scenario \<noteq> []
   \<and> result_response (accepting ''r1'') = Inr ''r1''
   \<and> exam_results (snd (submitExam (accepting ''r1'') scenario empty_db)) =
       [(''r1'', \<lparr>er_user_id = ''student-1'', er_exam_id = ''exam-1'', er_score = Some 33,
                  er_total_questions = 3, er_correct_answers = 1, er_time_taken_seconds = 90\<rparr>)]"
proof -
  have r: "result_response (accepting ''r1'') = Inr ''r1''" by (simp add: accepting_def)
  have q: "questions scenario \<noteq> []" by (simp add: scenario_fields three_questions_def)
  from attempt_row_bounds [OF scenario_fields(1) scenario_fields(2) q r, of empty_db]
  obtain row k where "exam_results (snd (submitExam (accepting ''r1'') scenario empty_db)) = exam_results empty_db @ [(''r1'', row)]"
    by blast
  moreover have "exam_results (snd (submitExam (accepting ''r1'') scenario empty_db)) =
    exam_results empty_db @ [(''r1'', result_payload (accepting ''r1'') ''student-1''
      \<lparr>exam_id = ''exam-1'', exam_title = ''Sample'', exam_description = None,
       exam_category = ''prelims'', exam_duration_minutes = 20\<rparr> scenario)]"
    using scenario_fields(1,2) r by (simp add: submitExam_accepted insert_student_answers_def)
  ultimately show ?thesis
    using q r by (simp add: scenario_payload scenario_fields empty_db_def)
qed

text \<open>
  Claim C2, at 23 correct answers out of 40 questions. The attempt row has
  \<open>total_questions = 40\<close> and \<open>correct_answers = 23\<close>, the number of questions whose
  recorded answer equals the correct option. Its score is 57: \<open>23 / 40\<close> is rounded to
  the double just below 0.575, the product with 100 is 57.49999999999999, and
  \<open>Math.round\<close> gives 57, where \<open>round(100 \<times> 23 / 40) = round(57.5) = 58\<close>.
\<close>

theorem score_of_23_correct_of_40:
  "map (\<lambda>(rid, row). (er_total_questions row, er_correct_answers row, er_score row))
     (exam_results (snd (submitExam (accepting ''r1'') twenty_three_of_forty empty_db)))
     = [(40, 23, Some 57)]
   \<and> spec_score 23 40 = 58"
proof -
  have r: "result_response (accepting ''r1'') = Inr ''r1''" by (simp add: accepting_def)
  have "exam_results (snd (submitExam (accepting ''r1'') twenty_three_of_forty empty_db)) =
    exam_results empty_db @ [(''r1'', result_payload (accepting ''r1'') ''student-1''
      \<lparr>exam_id = ''exam-1'', exam_title = ''Sample'', exam_description = None,
       exam_category = ''prelims'', exam_duration_minutes = 20\<rparr> twenty_three_of_forty)]"
    using forty_fields(1,2) r by (simp add: submitExam_accepted insert_student_answers_def)
  then show ?thesis
    by (simp add: result_payload_def forty_fields(3,4) score_23_of_40 spec_23_40 empty_db_def)
qed

subsection \<open>A failed attempt insert\<close>

text \<open>
  Claim C5. If the \<open>exam_results\<close> insert fails during a submission, the
  \<open>student_answers\<close> insert is never attempted (the failed insert is the only request
  of the call), no row is written to either table, the failure is shown, and the state
  is the one before the submission: answers, current index, countdown and page
  unchanged, \<open>submitting\<close> cleared. A retry from that state creates the attempt the
  first call would have created.
\<close>

theorem submitExam_attempt_insert_fails:
  assumes "user s = Some u" "exam s = Some e" "result_response env = Inl err"
  shows "fst (submitExam env s db)
           = s\<lparr>toasts := toasts s @ [Error ''Failed to submit exam''], submitting := False\<rparr>
     \<and> answers (fst (submitExam env s db)) = answers s
     \<and> currentIndex (fst (submitExam env s db)) = currentIndex s
     \<and> timeLeft (fst (submitExam env s db)) = timeLeft s
     \<and> navigated (fst (submitExam env s db)) = navigated s
     \<and> \<not> submitting (fst (submitExam env s db))
     \<and> exam_results (snd (submitExam env s db)) = exam_results db
     \<and> student_answers (snd (submitExam env s db)) = student_answers db
     \<and> requests (snd (submitExam env s db))
           = requests db @ [InsertExamResult (result_payload env u e s)]
     \<and> (\<forall>env' rid. result_response env' = Inr rid \<longrightarrow>
           exam_results (snd (submitExam env' (fst (submitExam env s db)) (snd (submitExam env s db))))
             = exam_results db @ [(rid, result_payload env' u e s)])"
proof -
  let ?s' = "s\<lparr>toasts := toasts s @ [Error ''Failed to submit exam''], submitting := False\<rparr>"
  let ?db' = "db\<lparr>requests := requests db @ [InsertExamResult (result_payload env u e s)]\<rparr>"
  have run: "submitExam env s db = (?s', ?db')"
    using assms by (rule submitExam_rejected)
  have retry: "exam_results (snd (submitExam env' ?s' ?db')) = exam_results db @ [(rid, result_payload env' u e s)]"
    if "result_response env' = Inr rid" for env' rid
  proof -
    have "user ?s' = Some u" "exam ?s' = Some e" using assms by simp_all
    from submitExam_accepted [OF this that, of ?db']
    show ?thesis by (simp add: insert_student_answers_def result_payload_def)
  qed
  show ?thesis unfolding run using retry by simp
qed

theorem submitExam_attempt_insert_fails_witness:
  "user scenario = Some ''student-1'' \<and> exam scenario \<noteq> None
   \<and> result_response rejecting = Inl ''Failed to fetch''
   \<and> exam_results (snd (submitExam rejecting scenario empty_db)) = []
   \<and> student_answers (snd (submitExam rejecting scenario empty_db)) = []
   \<and> length (requests (snd (submitExam rejecting scenario empty_db))) = 1
   \<and> toasts (fst (submitExam rejecting scenario empty_db)) = [Error ''Failed to submit exam'']
   \<and> timeLeft (fst (submitExam rejecting scenario empty_db)) = 1200
   \<and> \<not> submitting (fst (submitExam rejecting scenario empty_db))"
proof -
  have r: "result_response rejecting = Inl ''Failed to fetch''" by (simp add: rejecting_def)
  from submitExam_attempt_insert_fails [OF scenario_fields(1) scenario_fields(2) r, of empty_db]
  show ?thesis using r by (simp add: scenario_fields empty_db_def)
qed

subsection \<open>A second call while the first is in flight\<close>

lemma insert_exam_result_fst [simp]: "fst (insert_exam_result resp row db) = resp"
  by (simp add: insert_exam_result_def split: sum.splits)

lemma insert_exam_result_requests [simp]:
  "requests (snd (insert_exam_result resp row db)) = requests db @ [InsertExamResult row]"
  by (simp add: insert_exam_result_def split: sum.splits)

lemma submitExam_start_from_closure:
  assumes "c_user cl = Some u" "c_exam cl = Some e"
  shows "submitExam_start_from env cl s db =
     (s\<lparr>submitting := True\<rparr>,
      snd (insert_exam_result (result_response env) (result_payload env u e (seen_by cl s)) db),
      Some \<lparr>p_response = result_response env, p_questions = c_questions cl,
            p_answers = c_answers cl\<rparr>)"
  using assms
  by (simp add: submitExam_start_from_def insert_exam_result_def split: sum.splits)

lemma scenario_cells:
  "interval scenario = Some (loaded_closure three_questions)"
  "c_user (loaded_closure qs) = Some ''student-1''"
  "c_exam (loaded_closure qs) = Some \<lparr>exam_id = ''exam-1'', exam_title = ''Sample'',
      exam_description = None, exam_category = ''prelims'', exam_duration_minutes = 20\<rparr>"
  "c_questions (loaded_closure qs) = qs"
  "c_answers (loaded_closure qs) = Map.empty"
  by (simp_all add: scenario_def clickOption_def new_handleAutoSubmit_def selectAnswer_def
      loaded_def loaded_closure_def)

text \<open>
  Claim C1, on the three-question scenario. A first submission has sent its
  \<open>exam_results\<close> insert and waits for the response: \<open>submitting\<close> is true and the
  table holds one attempt. \<open>submitExam\<close> does not look at \<open>submitting\<close>: a second call
  in that state, directly or through the countdown reaching zero, inserts a second
  attempt row and changes the state.
\<close>

theorem submitExam_reentered_inserts_again:
  "(case submitExam_start (accepting ''r1'') scenario empty_db of
      (s1, db1, p) \<Rightarrow>
        submitting s1 \<and> p \<noteq> None
      \<and> map fst (exam_results db1) = [''r1'']
      \<and> map fst (exam_results (snd (submitExam (accepting ''r2'') s1 db1))) = [''r1'', ''r2'']
      \<and> navigated (fst (submitExam (accepting ''r2'') s1 db1)) \<noteq> navigated s1
      \<and> map fst (exam_results (snd (tick (accepting ''r2'') (s1\<lparr>timeLeft := 1\<rparr>) db1)))
          = [''r1'', ''r2''])"
proof -
  let ?e = "\<lparr>exam_id = ''exam-1'', exam_title = ''Sample'', exam_description = None,
           exam_category = ''prelims'', exam_duration_minutes = 20\<rparr>"
  let ?s1 = "scenario\<lparr>submitting := True\<rparr>"
  let ?db1 = "snd (insert_exam_result (result_response (accepting ''r1''))
                (result_payload (accepting ''r1'') ''student-1'' ?e scenario) empty_db)"
  have r: "result_response (accepting rid) = Inr rid" for rid by (simp add: accepting_def)
  have start: "submitExam_start (accepting ''r1'') scenario empty_db =
      (?s1, ?db1, Some \<lparr>p_response = result_response (accepting ''r1''),
          p_questions = c_questions (capture scenario), p_answers = c_answers (capture scenario)\<rparr>)"
    using submitExam_start_from_closure [of "capture scenario" "''student-1''" ?e
        "accepting ''r1''" scenario empty_db]
    by (simp add: submitExam_start_def scenario_fields(1,2))
  have db1: "exam_results ?db1 = [(''r1'', result_payload (accepting ''r1'') ''student-1'' ?e scenario)]"
    by (simp add: insert_exam_result_def r empty_db_def)
  have u: "user ?s1 = Some ''student-1''" and e: "exam ?s1 = Some ?e"
    by (simp_all add: scenario_fields)
  have again: "map fst (exam_results (snd (submitExam (accepting ''r2'') ?s1 ?db1))) = [''r1'', ''r2'']"
    "navigated (fst (submitExam (accepting ''r2'') ?s1 ?db1)) \<noteq> navigated ?s1"
    by (simp_all add: submitExam_accepted [OF u e r] insert_student_answers_def db1 scenario_fields)
  let ?t = "?s1\<lparr>timeLeft := 1\<rparr>"
  let ?w = "?t\<lparr>toasts := toasts ?t @ [Warning ''Time is up! Submitting your answers...'']\<rparr>"
  have "tick_start (accepting ''r2'') ?t ?db1 =
      (timer_effect (?w\<lparr>submitting := True, timeLeft := 0\<rparr>),
       snd (insert_exam_result (result_response (accepting ''r2''))
             (result_payload (accepting ''r2'') ''student-1'' ?e
               (seen_by (loaded_closure three_questions) ?w)) ?db1),
       Some \<lparr>p_response = result_response (accepting ''r2''),
             p_questions = c_questions (loaded_closure three_questions),
             p_answers = c_answers (loaded_closure three_questions)\<rparr>)"
    by (simp add: tick_start_def handleAutoSubmit_def scenario_cells
        submitExam_start_from_closure [OF scenario_cells(2) scenario_cells(3)])
  then have timer: "map fst (exam_results (snd (tick (accepting ''r2'') ?t ?db1))) = [''r1'', ''r2'']"
    by (simp add: tick_def submitExam_finish_def r insert_student_answers_def
        insert_exam_result_def db1 [unfolded r] empty_db_def)
  show ?thesis
    unfolding start using again timer db1 by simp
qed

section \<open>The countdown and the sessions\<close>

lemma result_payload_toasts [simp]:
  "result_payload env u e (seen_by cl (s\<lparr>toasts := ts\<rparr>)) = result_payload env u e (seen_by cl s)"
  by (simp add: result_payload_def seen_by_def)

lemma submitExam_start_from_cases:
  "submitExam_start_from env cl s db = (s, db, None)
   \<or> (\<exists>db' p. submitExam_start_from env cl s db = (s\<lparr>submitting := True\<rparr>, db', Some p))"
  by (simp add: submitExam_start_from_def split: option.splits prod.splits)

lemma submitExam_start_from_timer:
  "auto_submissions (fst (submitExam_start_from env cl s db)) = auto_submissions s
   \<and> timeLeft (fst (submitExam_start_from env cl s db)) = timeLeft s
   \<and> interval (fst (submitExam_start_from env cl s db)) = interval s"
  using submitExam_start_from_cases [of env cl s db] by (auto simp: auto_submissions_def)

lemma submitExam_finish_timer:
  "auto_submissions (fst (submitExam_finish env p s db)) = auto_submissions s
   \<and> timeLeft (fst (submitExam_finish env p s db)) = timeLeft s
   \<and> interval (fst (submitExam_finish env p s db))
       = (case p_response p of Inl err \<Rightarrow> interval s | Inr rid \<Rightarrow> None)
   \<and> navigated (fst (submitExam_finish env p s db))
       = (case p_response p of Inl err \<Rightarrow> navigated s
          | Inr rid \<Rightarrow> Some (''/student/result/'' @ rid))"
  by (simp add: submitExam_finish_def navigate_def auto_submissions_def split: sum.splits)

lemma tick_start_zero:
  assumes "interval s = Some cl" "timeLeft s \<le> 1"
  shows "auto_submissions (fst (tick_start env s db)) = auto_submissions s + 1"
    and "timeLeft (fst (tick_start env s db)) = 0"
    and "interval (fst (tick_start env s db)) = None"
proof -
  let ?w = "s\<lparr>toasts := toasts s @ [Warning ''Time is up! Submitting your answers...'']\<rparr>"
  obtain s' db' p where h: "submitExam_start_from env cl ?w db = (s', db', p)"
    by (cases "submitExam_start_from env cl ?w db")
  with assms have t: "tick_start env s db = (timer_effect (s'\<lparr>timeLeft := 0\<rparr>), db', p)"
    by (simp add: tick_start_def handleAutoSubmit_def)
  from submitExam_start_from_timer [of env cl ?w db] h
  have "auto_submissions s' = auto_submissions s + 1"
    by (simp add: auto_submissions_def)
  then show "auto_submissions (fst (tick_start env s db)) = auto_submissions s + 1"
    by (simp add: t timer_effect_def auto_submissions_def)
  show "timeLeft (fst (tick_start env s db)) = 0" by (simp add: t timer_effect_def)
  show "interval (fst (tick_start env s db)) = None" by (simp add: t timer_effect_def)
qed

lemma tick_start_zero_request:
  assumes "interval s = Some cl" "timeLeft s \<le> 1" "c_user cl = Some u" "c_exam cl = Some e"
  shows "tick_start env s db =
     (s\<lparr>timeLeft := 0, submitting := True,
        toasts := toasts s @ [Warning ''Time is up! Submitting your answers...''],
        interval := None\<rparr>,
      snd (insert_exam_result (result_response env) (result_payload env u e (seen_by cl s)) db),
      Some \<lparr>p_response = result_response env, p_questions = c_questions cl,
            p_answers = c_answers cl\<rparr>)"
  using assms
  by (simp add: tick_start_def handleAutoSubmit_def timer_effect_def
      submitExam_start_from_closure [OF assms(3,4)])

lemma tick_start_down:
  assumes "interval s = Some cl" "1 < timeLeft s"
  shows "tick_start env s db =
     (s\<lparr>timeLeft := timeLeft s - 1, interval := Some (autoSubmit s)\<rparr>, db, None)"
  using assms by (simp add: tick_start_def timer_effect_def)

lemma tick_start_stopped: "interval s = None \<Longrightarrow> tick_start env s db = (s, db, None)"
  by (simp add: tick_start_def)

lemma step_tick_fst [simp]:
  "fst (step (env, Tick) (s, db, ps)) = fst (tick_start env s db)"
  by (simp split: prod.splits)

lemma run_Cons: "run (ev # evs) c = run evs (step ev c)"
  by (simp add: run_def)

lemma run_Nil: "run [] c = c"
  by (simp add: run_def)

lemma step_submissions_left:
  "submissions_left (fst (step ev c)) \<le> submissions_left (fst c)"
proof (cases ev)
  case (Pair env e)
  obtain s db ps where c: "c = (s, db, ps)" by (cases c)
  show ?thesis
  proof (cases e)
    case Tick
    show ?thesis
    proof (cases "interval s")
      case None
      then show ?thesis by (simp add: Pair c Tick tick_start_stopped waiting_def)
    next
      case (Some cl)
      show ?thesis
      proof (cases "timeLeft s \<le> 1")
        case True
        from tick_start_zero [OF Some True, of env db] show ?thesis
          by (simp add: Pair c Tick submissions_left_def Some del: step.simps)
      next
        case False
        then have "1 < timeLeft s" by simp
        from tick_start_down [OF Some this, of env db] show ?thesis
          by (simp add: Pair c Tick submissions_left_def Some auto_submissions_def waiting_def)
      qed
    qed
  next
    case (SelectAnswer q opt)
    then show ?thesis
      by (simp add: Pair c submissions_left_def clickOption_def new_handleAutoSubmit_def
          selectAnswer_def auto_submissions_def)
  next
    case (GoToQuestion i)
    then show ?thesis
      by (simp add: Pair c submissions_left_def goToQuestion_def auto_submissions_def)
  next
    case SubmitClicked
    then show ?thesis
      using submitExam_start_from_timer [of env "capture s" s db]
      by (auto simp: Pair c submissions_left_def submitExam_start_def split: prod.splits)
  next
    case (Response k)
    then show ?thesis
      using submitExam_finish_timer [of env "ps ! k" s db]
      by (auto simp: Pair c submissions_left_def split: prod.splits sum.splits)
  next
    case (Unmount path)
    then show ?thesis
      by (simp add: Pair c submissions_left_def navigate_def auto_submissions_def)
  qed
qed

lemma step_auto_submissions_mono:
  "auto_submissions (fst c) \<le> auto_submissions (fst (step ev c))"
proof (cases ev)
  case (Pair env e)
  obtain s db ps where c: "c = (s, db, ps)" by (cases c)
  show ?thesis
  proof (cases e)
    case Tick
    show ?thesis
    proof (cases "interval s")
      case None
      then show ?thesis by (simp add: Pair c Tick tick_start_stopped waiting_def)
    next
      case (Some cl)
      show ?thesis
      proof (cases "timeLeft s \<le> 1")
        case True
        from tick_start_zero(1) [OF Some True, of env db] show ?thesis
          by (simp add: Pair c Tick del: step.simps)
      next
        case False
        then have "1 < timeLeft s" by simp
        from tick_start_down [OF Some this, of env db] show ?thesis
          by (simp add: Pair c Tick auto_submissions_def waiting_def)
      qed
    qed
  next
    case (SelectAnswer q opt)
    then show ?thesis
      by (simp add: Pair c clickOption_def new_handleAutoSubmit_def
          selectAnswer_def auto_submissions_def)
  next
    case (GoToQuestion i)
    then show ?thesis
      by (simp add: Pair c goToQuestion_def auto_submissions_def)
  next
    case SubmitClicked
    then show ?thesis
      using submitExam_start_from_timer [of env "capture s" s db]
      by (auto simp: Pair c submitExam_start_def split: prod.splits)
  next
    case (Response k)
    then show ?thesis
      using submitExam_finish_timer [of env "ps ! k" s db]
      by (auto simp: Pair c split: prod.splits)
  next
    case (Unmount path)
    then show ?thesis
      by (simp add: Pair c navigate_def auto_submissions_def)
  qed
qed

lemma run_append: "run (evs @ evs') c = run evs' (run evs c)"
  by (simp add: run_def)

lemma run_submissions_left:
  "submissions_left (fst (run evs c)) \<le> submissions_left (fst c)"
  unfolding run_def
proof (induction evs arbitrary: c)
  case Nil
  then show ?case by simp
next
  case (Cons ev evs)
  have "submissions_left (fst (fold step evs (step ev c))) \<le> submissions_left (fst (step ev c))"
    by (rule Cons.IH)
  also have "\<dots> \<le> submissions_left (fst c)" by (rule step_submissions_left)
  finally show ?case by simp
qed

lemma run_auto_submissions_mono:
  "auto_submissions (fst c) \<le> auto_submissions (fst (run evs c))"
  unfolding run_def
proof (induction evs arbitrary: c)
  case Nil
  then show ?case by simp
next
  case (Cons ev evs)
  have "auto_submissions (fst c) \<le> auto_submissions (fst (step ev c))"
    by (rule step_auto_submissions_mono)
  also have "\<dots> \<le> auto_submissions (fst (fold step evs (step ev c)))"
    by (rule Cons.IH)
  finally show ?case by simp
qed

lemma run_bound:
  "auto_submissions (fst (run evs (s, db, ps)))
     \<le> auto_submissions s + (if interval s = None then 0 else 1)"
proof -
  have "auto_submissions (fst (run evs (s, db, ps))) \<le> submissions_left (fst (run evs (s, db, ps)))"
    by (simp add: submissions_left_def)
  also have "\<dots> \<le> submissions_left (fst (s, db, ps))" by (rule run_submissions_left)
  finally show ?thesis by (simp add: submissions_left_def)
qed

lemma ticks_down:
  assumes "interval s \<noteq> None" "int n < timeLeft s"
  shows "run (replicate n (env, Tick)) (s, db, ps) =
     (if n = 0 then s
      else s\<lparr>timeLeft := timeLeft s - int n, interval := Some (autoSubmit s)\<rparr>, db, ps)"
  using assms
proof (induction n arbitrary: s)
  case 0
  then show ?case by (simp add: run_def)
next
  case (Suc n)
  from Suc.prems obtain cl where cl: "interval s = Some cl" by auto
  from Suc.prems have gt: "1 < timeLeft s" by simp
  let ?s1 = "s\<lparr>timeLeft := timeLeft s - 1, interval := Some (autoSubmit s)\<rparr>"
  have first: "step (env, Tick) (s, db, ps) = (?s1, db, ps)"
    by (simp add: tick_start_down [OF cl gt] waiting_def)
  have "run (replicate (Suc n) (env, Tick)) (s, db, ps)
      = run (replicate n (env, Tick)) (?s1, db, ps)"
    by (simp only: replicate_Suc run_Cons first)
  also have "\<dots> = (if n = 0 then ?s1
      else ?s1\<lparr>timeLeft := timeLeft ?s1 - int n, interval := Some (autoSubmit ?s1)\<rparr>, db, ps)"
    using Suc.prems by (intro Suc.IH) simp_all
  finally show ?case by (simp add: algebra_simps)
qed

lemma countdown_reaches_zero:
  assumes "interval s \<noteq> None" "0 < timeLeft s"
  shows "auto_submissions (fst (run (replicate (nat (timeLeft s)) (env, Tick)) (s, db, ps)))
           = auto_submissions s + 1"
proof -
  define n where "n = nat (timeLeft s) - 1"
  have len: "nat (timeLeft s) = n + 1" using assms(2) by (simp add: n_def)
  have lt: "int n < timeLeft s" using assms(2) by (simp add: n_def)
  let ?s1 = "if n = 0 then s else s\<lparr>timeLeft := timeLeft s - int n, interval := Some (autoSubmit s)\<rparr>"
  have one: "timeLeft ?s1 \<le> 1" using assms(2) by (cases "n = 0") (auto simp: n_def)
  obtain cl where cl: "interval ?s1 = Some cl" using assms(1) by (cases "n = 0") auto
  have same: "auto_submissions ?s1 = auto_submissions s" by (simp add: auto_submissions_def)
  have "replicate (nat (timeLeft s)) (env, Tick) = replicate n (env, Tick) @ [(env, Tick)]"
    by (simp add: len replicate_append_same)
  then have "run (replicate (nat (timeLeft s)) (env, Tick)) (s, db, ps)
      = step (env, Tick) (run (replicate n (env, Tick)) (s, db, ps))"
    by (simp only: run_append run_Cons run_Nil)
  also have "\<dots> = step (env, Tick) (?s1, db, ps)"
    by (simp only: ticks_down [OF assms(1) lt])
  finally show ?thesis
    using tick_start_zero(1) [OF cl one, of env db] same by (simp del: step.simps)
qed

text \<open>
  Claim C4, as the code has it. In every session of ticks, selections, navigation,
  manual submissions, responses and unmounting, the automatic submission is triggered
  at most once, and a countdown left to run triggers it. It is triggered by the tick
  that takes the countdown to 0: that tick shows the warning, calls \<open>submitExam\<close>, which
  sends the \<open>exam_results\<close> insert, and leaves no interval set. A tick above 1 only
  decrements the countdown. The interval is cancelled on unmount, after which no
  session triggers an automatic submission. A manual submission that failed leaves the
  interval as it is; one that succeeded clears it, by the navigation to the result page.
\<close>

theorem countdown_submits_once:
  "(\<forall>evs. auto_submissions (fst (run evs (s, db, ps)))
            \<le> auto_submissions s + (if interval s = None then 0 else 1))
   \<and> (interval s \<noteq> None \<and> 0 < timeLeft s \<longrightarrow>
        auto_submissions (fst (run (replicate (nat (timeLeft s)) (env, Tick)) (s, db, ps)))
          = auto_submissions s + 1)
   \<and> (interval s = Some cl \<and> timeLeft s \<le> 1 \<and> c_user cl = Some u \<and> c_exam cl = Some e \<longrightarrow>
        (case step (env, Tick) (s, db, ps) of
           (s', db', ps') \<Rightarrow>
             s' = s\<lparr>timeLeft := 0, submitting := True,
                    toasts := toasts s @ [Warning ''Time is up! Submitting your answers...''],
                    interval := None\<rparr>
           \<and> requests db'
               = requests db @ [InsertExamResult (result_payload env u e (seen_by cl s))]
           \<and> ps' = ps @ [\<lparr>p_response = result_response env, p_questions = c_questions cl,
                           p_answers = c_answers cl\<rparr>]))
   \<and> (interval s = Some cl \<and> 1 < timeLeft s \<longrightarrow>
        step (env, Tick) (s, db, ps)
          = (s\<lparr>timeLeft := timeLeft s - 1, interval := Some (autoSubmit s)\<rparr>, db, ps))
   \<and> (interval s = None \<longrightarrow> step (env, Tick) (s, db, ps) = (s, db, ps))
   \<and> interval (fst (step (env, Unmount path) (s, db, ps))) = None
   \<and> (\<forall>evs. auto_submissions (fst (run evs (step (env, Unmount path) (s, db, ps))))
            = auto_submissions s)
   \<and> (k < length ps \<and> p_response (ps ! k) = Inl err \<longrightarrow>
        interval (fst (step (env, Response k) (s, db, ps))) = interval s
      \<and> timeLeft (fst (step (env, Response k) (s, db, ps))) = timeLeft s)
   \<and> (k < length ps \<and> p_response (ps ! k) = Inr rid \<longrightarrow>
        interval (fst (step (env, Response k) (s, db, ps))) = None
      \<and> navigated (fst (step (env, Response k) (s, db, ps)))
          = Some (''/student/result/'' @ rid))"
proof (intro conjI allI impI)
  fix evs
  show "auto_submissions (fst (run evs (s, db, ps)))
            \<le> auto_submissions s + (if interval s = None then 0 else 1)"
    by (rule run_bound)
next
  assume "interval s \<noteq> None \<and> 0 < timeLeft s"
  then show "auto_submissions (fst (run (replicate (nat (timeLeft s)) (env, Tick)) (s, db, ps)))
          = auto_submissions s + 1"
    by (simp add: countdown_reaches_zero)
next
  assume a: "interval s = Some cl \<and> timeLeft s \<le> 1 \<and> c_user cl = Some u \<and> c_exam cl = Some e"
  then have "tick_start env s db =
     (s\<lparr>timeLeft := 0, submitting := True,
        toasts := toasts s @ [Warning ''Time is up! Submitting your answers...''],
        interval := None\<rparr>,
      snd (insert_exam_result (result_response env) (result_payload env u e (seen_by cl s)) db),
      Some \<lparr>p_response = result_response env, p_questions = c_questions cl,
            p_answers = c_answers cl\<rparr>)"
    by (intro tick_start_zero_request) simp_all
  then show "case step (env, Tick) (s, db, ps) of
           (s', db', ps') \<Rightarrow>
             s' = s\<lparr>timeLeft := 0, submitting := True,
                    toasts := toasts s @ [Warning ''Time is up! Submitting your answers...''],
                    interval := None\<rparr>
           \<and> requests db'
               = requests db @ [InsertExamResult (result_payload env u e (seen_by cl s))]
           \<and> ps' = ps @ [\<lparr>p_response = result_response env, p_questions = c_questions cl,
                           p_answers = c_answers cl\<rparr>]"
    by (simp add: waiting_def)
next
  assume "interval s = Some cl \<and> 1 < timeLeft s"
  then show "step (env, Tick) (s, db, ps)
          = (s\<lparr>timeLeft := timeLeft s - 1, interval := Some (autoSubmit s)\<rparr>, db, ps)"
    by (simp add: tick_start_down waiting_def)
next
  assume "interval s = None"
  then show "step (env, Tick) (s, db, ps) = (s, db, ps)"
    by (simp add: tick_start_stopped waiting_def)
next
  show "interval (fst (step (env, Unmount path) (s, db, ps))) = None"
    by (simp add: navigate_def)
next
  fix evs
  let ?c = "step (env, Unmount path) (s, db, ps)"
  have c: "?c = (navigate path s, db, ps)" by simp
  have "auto_submissions (fst (run evs ?c)) \<le> auto_submissions (navigate path s)"
    unfolding c using run_bound [of evs "navigate path s" db ps] by (simp add: navigate_def)
  moreover have "auto_submissions (navigate path s) \<le> auto_submissions (fst (run evs ?c))"
    unfolding c using run_auto_submissions_mono [of "(navigate path s, db, ps)" evs] by simp
  moreover have "auto_submissions (navigate path s) = auto_submissions s"
    by (simp add: navigate_def auto_submissions_def)
  ultimately show "auto_submissions (fst (run evs ?c)) = auto_submissions s" by simp
next
  assume a: "k < length ps \<and> p_response (ps ! k) = Inl err"
  then show "interval (fst (step (env, Response k) (s, db, ps))) = interval s"
    and "timeLeft (fst (step (env, Response k) (s, db, ps))) = timeLeft s"
    using submitExam_finish_timer [of env "ps ! k" s db] by (auto split: prod.splits)
next
  assume a: "k < length ps \<and> p_response (ps ! k) = Inr rid"
  then show "interval (fst (step (env, Response k) (s, db, ps))) = None"
    and "navigated (fst (step (env, Response k) (s, db, ps)))
          = Some (''/student/result/'' @ rid)"
    using submitExam_finish_timer [of env "ps ! k" s db] by (auto split: prod.splits)
qed

lemmas session_defs = run_def submitExam_start_def submitExam_start_from_def submitExam_finish_def
  tick_start_def handleAutoSubmit_def timer_effect_def navigate_def waiting_def
  insert_exam_result_def insert_student_answers_def

theorem countdown_submits_once_witness:
  "interval (scenario\<lparr>timeLeft := 1\<rparr>) = Some (loaded_closure three_questions)
   \<and> timeLeft (fst (step (accepting ''r1'', Tick) (scenario\<lparr>timeLeft := 1\<rparr>, empty_db, []))) = 0
   \<and> interval (fst (step (accepting ''r1'', Tick) (scenario\<lparr>timeLeft := 1\<rparr>, empty_db, []))) = None
   \<and> auto_submissions (fst (step (accepting ''r1'', Tick) (scenario\<lparr>timeLeft := 1\<rparr>, empty_db, []))) = 1
   \<and> length (requests (fst (snd (step (accepting ''r1'', Tick)
         (scenario\<lparr>timeLeft := 1\<rparr>, empty_db, []))))) = 1
   \<and> length (snd (snd (step (accepting ''r1'', Tick) (scenario\<lparr>timeLeft := 1\<rparr>, empty_db, [])))) = 1
   \<and> auto_submissions (fst (run [(accepting ''r1'', Tick), (accepting ''r2'', Tick),
         (accepting ''r3'', Response 0), (accepting ''r4'', Tick)]
         (scenario\<lparr>timeLeft := 1\<rparr>, empty_db, []))) \<le> 1
   \<and> auto_submissions (fst (run (replicate 1200 (rejecting, Tick)) (scenario, empty_db, []))) = 1
   \<and> step (rejecting, Tick) (scenario, empty_db, [])
       = (scenario\<lparr>timeLeft := 1199, interval := Some (autoSubmit scenario)\<rparr>, empty_db, [])
   \<and> interval (fst (step (rejecting, Unmount ''/student'') (scenario, empty_db, []))) = None
   \<and> auto_submissions (fst (run [(accepting ''r1'', Tick)]
         (step (rejecting, Unmount ''/student'') (scenario, empty_db, [])))) = 0
   \<and> interval (fst (step (rejecting, Response 0) (scenario, empty_db,
         [\<lparr>p_response = Inl ''Failed to fetch'', p_questions = three_questions,
           p_answers = Map.empty\<rparr>]))) = Some (loaded_closure three_questions)
   \<and> interval (fst (step (rejecting, Response 0) (scenario, empty_db,
         [\<lparr>p_response = Inr ''r1'', p_questions = three_questions,
           p_answers = Map.empty\<rparr>]))) = None"
proof -
  let ?t = "scenario\<lparr>timeLeft := 1\<rparr>"
  let ?cl = "loaded_closure three_questions"
  let ?e = "\<lparr>exam_id = ''exam-1'', exam_title = ''Sample'', exam_description = None,
           exam_category = ''prelims'', exam_duration_minutes = 20\<rparr>"
  let ?failed = "[\<lparr>p_response = Inl ''Failed to fetch'', p_questions = three_questions,
           p_answers = Map.empty\<rparr>]"
  let ?stored = "[\<lparr>p_response = Inr ''r1'', p_questions = three_questions,
           p_answers = Map.empty\<rparr>]"
  have a0: "auto_submissions scenario = 0" "auto_submissions ?t = 0"
    by (simp_all add: auto_submissions_def scenario_fields)
  note at_zero = countdown_submits_once
    [of ?t empty_db "[]" "accepting ''r1''" ?cl "''student-1''" ?e "''/student''" 0 "''x''" "''x''"]
  note running = countdown_submits_once
    [of scenario empty_db "[]" rejecting ?cl "''student-1''" ?e "''/student''" 0 "''x''" "''x''"]
  note failed = countdown_submits_once
    [of scenario empty_db ?failed rejecting ?cl "''student-1''" ?e "''/student''" 0
      "''Failed to fetch''" "''x''"]
  note stored = countdown_submits_once
    [of scenario empty_db ?stored rejecting ?cl "''student-1''" ?e "''/student''" 0
      "''x''" "''r1''"]
  from at_zero have zero: "case step (accepting ''r1'', Tick) (?t, empty_db, []) of
           (s', db', ps') \<Rightarrow>
             s' = ?t\<lparr>timeLeft := 0, submitting := True,
                    toasts := toasts ?t @ [Warning ''Time is up! Submitting your answers...''],
                    interval := None\<rparr>
           \<and> requests db'
               = requests empty_db @ [InsertExamResult (result_payload (accepting ''r1'') ''student-1'' ?e (seen_by ?cl ?t))]
           \<and> ps' = [] @ [\<lparr>p_response = result_response (accepting ''r1''), p_questions = c_questions ?cl,
                           p_answers = c_answers ?cl\<rparr>]"
    and bound: "auto_submissions (fst (run [(accepting ''r1'', Tick), (accepting ''r2'', Tick),
         (accepting ''r3'', Response 0), (accepting ''r4'', Tick)] (?t, empty_db, []))) \<le> 1"
    by (simp_all add: scenario_cells a0 del: step.simps)
  from zero have z: "timeLeft (fst (step (accepting ''r1'', Tick) (?t, empty_db, []))) = 0"
    "interval (fst (step (accepting ''r1'', Tick) (?t, empty_db, []))) = None"
    "auto_submissions (fst (step (accepting ''r1'', Tick) (?t, empty_db, []))) = 1"
    "length (requests (fst (snd (step (accepting ''r1'', Tick) (?t, empty_db, []))))) = 1"
    "length (snd (snd (step (accepting ''r1'', Tick) (?t, empty_db, [])))) = 1"
    by (auto simp: auto_submissions_def scenario_fields empty_db_def
        simp del: step.simps step_tick_fst split: prod.splits)
  from running have r: "auto_submissions (fst (run (replicate 1200 (rejecting, Tick)) (scenario, empty_db, []))) = 1"
    "step (rejecting, Tick) (scenario, empty_db, [])
       = (scenario\<lparr>timeLeft := 1199, interval := Some (autoSubmit scenario)\<rparr>, empty_db, [])"
    "interval (fst (step (rejecting, Unmount ''/student'') (scenario, empty_db, []))) = None"
    "auto_submissions (fst (run [(accepting ''r1'', Tick)]
         (step (rejecting, Unmount ''/student'') (scenario, empty_db, [])))) = 0"
    by (simp_all add: scenario_cells scenario_fields a0 del: step.simps)
  from failed have f: "interval (fst (step (rejecting, Response 0) (scenario, empty_db, ?failed))) = Some ?cl"
    by (simp add: scenario_cells del: step.simps)
  from stored have st: "interval (fst (step (rejecting, Response 0) (scenario, empty_db, ?stored))) = None"
    by (simp del: step.simps)
  have i: "interval ?t = Some ?cl" by (simp add: scenario_cells)
  from i z bound r f st show ?thesis by blast
qed

text \<open>
  Claim C4 as stated has the tick cancelled on manual submission. A manual submission
  whose \<open>exam_results\<close> insert fails leaves the interval set: the next tick still
  decrements the countdown, and at 1 it still triggers the automatic submission. The
  interval also fires while a manual submission waits for its response.
\<close>

theorem failed_submission_leaves_timer_running:
  "interval (fst (run [(rejecting, SubmitClicked), (rejecting, Response 0)]
       (scenario, empty_db, []))) \<noteq> None
   \<and> timeLeft (fst (run [(rejecting, SubmitClicked), (rejecting, Response 0), (rejecting, Tick)]
       (scenario, empty_db, []))) = 1199
   \<and> auto_submissions (fst (run [(rejecting, SubmitClicked), (rejecting, Response 0),
         (accepting ''r1'', Tick)] (scenario\<lparr>timeLeft := 1\<rparr>, empty_db, []))) = 1
   \<and> timeLeft (fst (run [(accepting ''r1'', SubmitClicked), (accepting ''r1'', Tick)]
       (scenario, empty_db, []))) = 1199"
  by (simp add: session_defs scenario_fields scenario_cells rejecting_def accepting_def
      auto_submissions_def)

section \<open>The answer records of a session\<close>

lemma score_0_of_3: "score_of 0 3 = Some 0"
  by (simp add: score_of_def js_div_def to_double_def)

lemma loaded_fields:
  "interval (loaded qs) = Some (loaded_closure qs)" "autoSubmit (loaded qs) = loaded_closure qs"
  "timeLeft (loaded qs) = 1200" "navigated (loaded qs) = None" "toasts (loaded qs) = []"
  "questions (loaded qs) = qs" "answers (loaded qs) = Map.empty" "startTime (loaded qs) = 0"
  by (simp_all add: loaded_def)

text \<open>
  Claim C3, at two sessions of the three-question exam. In the first the attempt is
  inserted and the database refuses the insert of the answer records: the code does not
  look at that response, shows success and navigates to the result, and the attempt has
  no answer record. In the second the student selects the correct option of question 1
  in the last second of the countdown: the interval's callback still holds the
  \<open>handleAutoSubmit\<close> of the render at the last tick, so the automatic submission stores
  question 1 with selected option null and \<open>is_correct\<close> false, and an attempt with no
  correct answer, while the page shows the option as selected.
\<close>

theorem answer_records_missing_or_stale:
  "(case submitExam (answers_refused ''r1'') scenario empty_db of
      (s', db') \<Rightarrow>
        map fst (exam_results db') = [''r1'']
      \<and> student_answers db' = []
      \<and> toasts s' = [Success ''Exam submitted successfully!'']
      \<and> navigated s' = Some ''/student/result/r1'')
   \<and> (case run (replicate 1199 (accepting ''r0'', Tick)
                @ [(accepting ''r0'', SelectAnswer ''q1'' ''A''), (accepting ''r1'', Tick),
                   (accepting ''r1'', Response 0)])
              (loaded three_questions, empty_db, []) of
        (s', db', ps') \<Rightarrow>
          answers s' ''q1'' = Some ''A''
        \<and> map (\<lambda>q. (qid q, correct_option q)) (questions s')
            = [(''q1'', ''A''), (''q2'', ''B''), (''q3'', ''C'')]
        \<and> map (\<lambda>(rid, row). (rid, er_correct_answers row, er_score row)) (exam_results db')
            = [(''r1'', 0, Some 0)]
        \<and> student_answers db' =
            [\<lparr>sa_result_id = ''r1'', sa_question_id = ''q1'', sa_selected_option = None,
              sa_is_correct = False\<rparr>,
             \<lparr>sa_result_id = ''r1'', sa_question_id = ''q2'', sa_selected_option = None,
              sa_is_correct = False\<rparr>,
             \<lparr>sa_result_id = ''r1'', sa_question_id = ''q3'', sa_selected_option = None,
              sa_is_correct = False\<rparr>])"
proof -
  have r: "result_response (answers_refused ''r1'') = Inr ''r1''"
    by (simp add: answers_refused_def)
  have refused: "case submitExam (answers_refused ''r1'') scenario empty_db of
      (s', db') \<Rightarrow>
        map fst (exam_results db') = [''r1'']
      \<and> student_answers db' = []
      \<and> toasts s' = [Success ''Exam submitted successfully!'']
      \<and> navigated s' = Some ''/student/result/r1''"
    by (simp add: submitExam_accepted [OF scenario_fields(1,2) r] insert_student_answers_def
        scenario_fields)
      (simp add: answers_refused_def empty_db_def)
  let ?s1 = "(loaded three_questions)\<lparr>timeLeft := 1\<rparr>"
  have ticks: "run (replicate 1199 (accepting ''r0'', Tick)) (loaded three_questions, empty_db, [])
      = (?s1, empty_db, [])"
    using ticks_down [of "loaded three_questions" 1199 "accepting ''r0''" empty_db "[]"]
    by (simp add: loaded_fields)
  have zero: "score_of 0 (Suc (Suc (Suc 0))) = Some 0"
    using score_0_of_3 by (simp add: numeral_3_eq_3)
  have stale: "case run [(accepting ''r0'', SelectAnswer ''q1'' ''A''), (accepting ''r1'', Tick),
                   (accepting ''r1'', Response 0)] (?s1, empty_db, []) of
        (s', db', ps') \<Rightarrow>
          answers s' ''q1'' = Some ''A''
        \<and> map (\<lambda>q. (qid q, correct_option q)) (questions s')
            = [(''q1'', ''A''), (''q2'', ''B''), (''q3'', ''C'')]
        \<and> map (\<lambda>(rid, row). (rid, er_correct_answers row, er_score row)) (exam_results db')
            = [(''r1'', 0, Some 0)]
        \<and> student_answers db' =
            [\<lparr>sa_result_id = ''r1'', sa_question_id = ''q1'', sa_selected_option = None,
              sa_is_correct = False\<rparr>,
             \<lparr>sa_result_id = ''r1'', sa_question_id = ''q2'', sa_selected_option = None,
              sa_is_correct = False\<rparr>,
             \<lparr>sa_result_id = ''r1'', sa_question_id = ''q3'', sa_selected_option = None,
              sa_is_correct = False\<rparr>]"
    by (simp add: session_defs loaded_fields scenario_cells clickOption_def
        new_handleAutoSubmit_def selectAnswer_def accepting_def empty_db_def
        result_payload_def seen_by_def correctCount_def answersToInsert_def or_null_def
        three_questions_def question_def zero)
  show ?thesis
    using refused stale by (simp only: run_append ticks)
qed


section \<open>The exam editor\<close>

text \<open>
  Claim C8. Selecting a category in the exam form sets the category and sets the
  duration to the category's default: basic gives 40 minutes, prelims 20, mains 30, for
  every category; the other fields of the form stay.
\<close>

theorem category_sets_default_duration:
  "category (handleCategoryChange c prev) = c
   \<and> duration_minutes (handleCategoryChange c prev)
        = (case c of basic \<Rightarrow> 40 | prelims \<Rightarrow> 20 | mains \<Rightarrow> 30)
   \<and> title (handleCategoryChange c prev) = title prev
   \<and> description (handleCategoryChange c prev) = description prev
   \<and> is_active (handleCategoryChange c prev) = is_active prev"
  by (cases c) (simp_all add: handleCategoryChange_def)

subsection \<open>Saving\<close>

lemma questionsToInsert_length: "length (questionsToInsert eid qs) = length qs"
  by (simp add: questionsToInsert_def)

lemma questionsToInsert_nth:
  assumes "i < length qs"
  shows "questionsToInsert eid qs ! i =
     \<lparr>qr_exam_id = eid, qr_question_text = ed_question_text (qs ! i),
      qr_option_a = ed_option_a (qs ! i), qr_option_b = ed_option_b (qs ! i),
      qr_option_c = ed_option_c (qs ! i), qr_option_d = ed_option_d (qs ! i),
      qr_correct_option = ed_correct_option (qs ! i), qr_order_index = i\<rparr>"
  using assms by (simp add: questionsToInsert_def nth_enumerate_eq)

lemma questionsToInsert_exam_id:
  "r \<in> set (questionsToInsert eid qs) \<Longrightarrow> qr_exam_id r = eid"
  by (auto simp: questionsToInsert_def)

lemma filter_own: "filter (\<lambda>r. qr_exam_id r = eid) (questionsToInsert eid qs) = questionsToInsert eid qs"
  by (rule filter_True) (simp add: questionsToInsert_exam_id)

lemma filter_other: "filter (\<lambda>r. qr_exam_id r \<noteq> eid) (questionsToInsert eid qs) = []"
  by (simp add: filter_empty_conv questionsToInsert_exam_id)

lemma handleSave_edit:
  assumes "validation_error s = None" "route_id s = Some eid" "eid \<noteq> []"
    and "update_error env = None" "insert_questions_error env = None"
  shows "snd (handleSave env s db) =
     db\<lparr>exams_tbl := map (\<lambda>(i, row). if i = eid
                              then (i, (exam_fields s None)\<lparr>x_created_by := x_created_by row\<rparr>)
                              else (i, row)) (exams_tbl db),
        questions_tbl := (if delete_accepted env
                          then filter (\<lambda>r. qr_exam_id r \<noteq> eid) (questions_tbl db)
                          else questions_tbl db) @ questionsToInsert eid (ed_questions s),
        editor_requests := editor_requests db @
          [UpdateExam eid (exam_fields s None), DeleteQuestions eid,
           InsertQuestions (questionsToInsert eid (ed_questions s))]\<rparr>"
  using assms
  by (simp add: handleSave_def save_exam_def isEditing_def update_exam_def delete_questions_def
      insert_questions_def)

lemma handleSave_create:
  assumes "validation_error s = None" "\<not> isEditing s"
    and "insert_exam_response env = Inr eid" "insert_questions_error env = None"
  shows "snd (handleSave env s db) =
     db\<lparr>exams_tbl := exams_tbl db @ [(eid, exam_fields s (editor_user s))],
        questions_tbl := questions_tbl db @ questionsToInsert eid (ed_questions s),
        editor_requests := editor_requests db @
          [InsertExam (exam_fields s (editor_user s)),
           InsertQuestions (questionsToInsert eid (ed_questions s))]\<rparr>"
  using assms
  by (simp add: handleSave_def save_exam_def insert_exam_def insert_questions_def)

text \<open>
  After a save whose requests the database carried out, the stored question
  rows of the exam are exactly the questions of the editor's list, in the list's order,
  each with \<open>order_index\<close> equal to its position \<open>0, 1, \<dots>, n - 1\<close>, whatever order
  indices the list's questions or the stored rows had; the rows of other exams are
  untouched. On the edit path the requests are the update of the exam, the delete of
  all its question rows and then the insert of the new list, in this order. On the
  create path the exam's id is the one the database gave the new exam row, which no
  stored question refers to.
\<close>

lemma handleSave_stores_list_in_order:
  assumes "validation_error s = None"
    and "if isEditing s
         then route_id s = Some eid \<and> update_error env = None \<and> delete_accepted env
         else insert_exam_response env = Inr eid
              \<and> (\<forall>r \<in> set (questions_tbl db). qr_exam_id r \<noteq> eid)"
    and "insert_questions_error env = None"
  shows "\<exists>rows.
       filter (\<lambda>r. qr_exam_id r = eid) (questions_tbl (snd (handleSave env s db))) = rows
     \<and> length rows = length (ed_questions s)
     \<and> (\<forall>i < length (ed_questions s).
          qr_order_index (rows ! i) = i
        \<and> qr_exam_id (rows ! i) = eid
        \<and> qr_question_text (rows ! i) = ed_question_text (ed_questions s ! i)
        \<and> qr_option_a (rows ! i) = ed_option_a (ed_questions s ! i)
        \<and> qr_option_b (rows ! i) = ed_option_b (ed_questions s ! i)
        \<and> qr_option_c (rows ! i) = ed_option_c (ed_questions s ! i)
        \<and> qr_option_d (rows ! i) = ed_option_d (ed_questions s ! i)
        \<and> qr_correct_option (rows ! i) = ed_correct_option (ed_questions s ! i))
     \<and> filter (\<lambda>r. qr_exam_id r \<noteq> eid) (questions_tbl (snd (handleSave env s db)))
         = filter (\<lambda>r. qr_exam_id r \<noteq> eid) (questions_tbl db)
     \<and> (isEditing s \<longrightarrow>
          (\<exists>vals. editor_requests (snd (handleSave env s db)) = editor_requests db @
             [UpdateExam eid vals, DeleteQuestions eid, InsertQuestions rows]))
     \<and> ed_navigated (fst (handleSave env s db)) = Some ''/admin/exams''"
proof -
  let ?rows = "questionsToInsert eid (ed_questions s)"
  have tbl: "questions_tbl (snd (handleSave env s db))
      = filter (\<lambda>r. qr_exam_id r \<noteq> eid) (questions_tbl db) @ ?rows"
    and reqs: "isEditing s \<longrightarrow> editor_requests (snd (handleSave env s db)) = editor_requests db @
             [UpdateExam eid (exam_fields s None), DeleteQuestions eid, InsertQuestions ?rows]"
    and nav: "ed_navigated (fst (handleSave env s db)) = Some ''/admin/exams''"
  proof -
    show "questions_tbl (snd (handleSave env s db))
      = filter (\<lambda>r. qr_exam_id r \<noteq> eid) (questions_tbl db) @ ?rows"
    proof (cases "isEditing s")
      case True
      with assms(2) have e: "route_id s = Some eid" "eid \<noteq> []" "update_error env = None" "delete_accepted env"
        by (auto simp: isEditing_def)
      show ?thesis by (simp add: handleSave_edit [OF assms(1) e(1,2,3) assms(3)] e(4))
    next
      case False
      with assms(2) have c: "insert_exam_response env = Inr eid"
        "\<forall>r \<in> set (questions_tbl db). qr_exam_id r \<noteq> eid" by auto
      from c(2) have "filter (\<lambda>r. qr_exam_id r \<noteq> eid) (questions_tbl db) = questions_tbl db"
        by (simp add: filter_id_conv)
      then show ?thesis by (simp add: handleSave_create [OF assms(1) False c(1) assms(3)])
    qed
    show "isEditing s \<longrightarrow> editor_requests (snd (handleSave env s db)) = editor_requests db @
             [UpdateExam eid (exam_fields s None), DeleteQuestions eid, InsertQuestions ?rows]"
    proof
      assume "isEditing s"
      with assms(2) have e: "route_id s = Some eid" "eid \<noteq> []" "update_error env = None"
        by (auto simp: isEditing_def)
      show "editor_requests (snd (handleSave env s db)) = editor_requests db @
             [UpdateExam eid (exam_fields s None), DeleteQuestions eid, InsertQuestions ?rows]"
        by (simp add: handleSave_edit [OF assms(1) e assms(3)])
    qed
    show "ed_navigated (fst (handleSave env s db)) = Some ''/admin/exams''"
      using assms
      by (auto simp: handleSave_def save_exam_def isEditing_def update_exam_def insert_exam_def
          insert_questions_def split: option.splits if_splits)
  qed
  have own: "filter (\<lambda>r. qr_exam_id r = eid) (questions_tbl (snd (handleSave env s db))) = ?rows"
    by (simp add: tbl filter_own)
  have other: "filter (\<lambda>r. qr_exam_id r \<noteq> eid) (questions_tbl (snd (handleSave env s db)))
         = filter (\<lambda>r. qr_exam_id r \<noteq> eid) (questions_tbl db)"
    by (simp add: tbl filter_other)
  have each: "\<forall>i < length (ed_questions s).
          qr_order_index (?rows ! i) = i
        \<and> qr_exam_id (?rows ! i) = eid
        \<and> qr_question_text (?rows ! i) = ed_question_text (ed_questions s ! i)
        \<and> qr_option_a (?rows ! i) = ed_option_a (ed_questions s ! i)
        \<and> qr_option_b (?rows ! i) = ed_option_b (ed_questions s ! i)
        \<and> qr_option_c (?rows ! i) = ed_option_c (ed_questions s ! i)
        \<and> qr_option_d (?rows ! i) = ed_option_d (ed_questions s ! i)
        \<and> qr_correct_option (?rows ! i) = ed_correct_option (ed_questions s ! i)"
    by (simp add: questionsToInsert_nth)
  from own other each reqs nav questionsToInsert_length [of eid "ed_questions s"]
  show ?thesis by (intro exI [of _ ?rows]) blast
qed

text \<open>
  An edit of exam \<open>e1\<close>, whose three stored rows have the order indices 0, 7, 7, and the
  creation of exam \<open>e3\<close>, both from a list of two questions.
\<close>

lemma editor_valid: "validation_error (editor rid) = None"
  by (simp add: validation_error_def editor_def draft_def trim_def is_space_def)

lemma two_rows:
  assumes "length rows = 2"
    and "\<forall>i<2. qr_order_index (rows ! i) = i
        \<and> qr_exam_id (rows ! i) = eid
        \<and> qr_question_text (rows ! i) = ed_question_text (ed_questions (editor rid) ! i)
        \<and> qr_option_a (rows ! i) = ed_option_a (ed_questions (editor rid) ! i)
        \<and> qr_option_b (rows ! i) = ed_option_b (ed_questions (editor rid) ! i)
        \<and> qr_option_c (rows ! i) = ed_option_c (ed_questions (editor rid) ! i)
        \<and> qr_option_d (rows ! i) = ed_option_d (ed_questions (editor rid) ! i)
        \<and> qr_correct_option (rows ! i) = ed_correct_option (ed_questions (editor rid) ! i)"
  shows "rows = [(stored eid ''first'' 0)\<lparr>qr_correct_option := OptB\<rparr>,
                 (stored eid ''second'' 1)\<lparr>qr_correct_option := OptC\<rparr>]"
proof -
  from assms(1) obtain r0 r1 where rs: "rows = [r0, r1]"
    by (auto simp: length_Suc_conv numeral_2_eq_2)
  from assms(2) [rule_format, of 0] have "r0 = (stored eid ''first'' 0)\<lparr>qr_correct_option := OptB\<rparr>"
    by (simp add: rs editor_def draft_def stored_def)
  moreover from assms(2) [rule_format, of 1] have "r1 = (stored eid ''second'' 1)\<lparr>qr_correct_option := OptC\<rparr>"
    by (simp add: rs editor_def draft_def stored_def)
  ultimately show ?thesis by (simp add: rs)
qed

lemma handleSave_stores_list_in_order_sample:
  "validation_error (editor (Some ''e1'')) = None \<and> isEditing (editor (Some ''e1''))
   \<and> map qr_order_index (filter (\<lambda>r. qr_exam_id r = ''e1'') (questions_tbl stored_db)) = [0, 7, 7]
   \<and> filter (\<lambda>r. qr_exam_id r = ''e1'')
        (questions_tbl (snd (handleSave (all_accepted ''e3'') (editor (Some ''e1'')) stored_db)))
       = [(stored ''e1'' ''first'' 0)\<lparr>qr_correct_option := OptB\<rparr>,
          (stored ''e1'' ''second'' 1)\<lparr>qr_correct_option := OptC\<rparr>]
   \<and> filter (\<lambda>r. qr_exam_id r \<noteq> ''e1'')
        (questions_tbl (snd (handleSave (all_accepted ''e3'') (editor (Some ''e1'')) stored_db)))
       = [stored ''e2'' ''y'' 0]
   \<and> validation_error (editor None) = None \<and> \<not> isEditing (editor None)
   \<and> filter (\<lambda>r. qr_exam_id r = ''e3'')
        (questions_tbl (snd (handleSave (all_accepted ''e3'') (editor None) stored_db)))
       = [(stored ''e3'' ''first'' 0)\<lparr>qr_correct_option := OptB\<rparr>,
          (stored ''e3'' ''second'' 1)\<lparr>qr_correct_option := OptC\<rparr>]"
proof -
  have ed: "isEditing (editor (Some ''e1''))" "\<not> isEditing (editor None)"
    by (simp_all add: isEditing_def editor_def)
  have len: "length (ed_questions (editor rid)) = 2" for rid by (simp add: editor_def)
  have rt: "route_id (editor rid) = rid" for rid by (simp add: editor_def)
  have old: "map qr_order_index (filter (\<lambda>r. qr_exam_id r = ''e1'') (questions_tbl stored_db)) = [0, 7, 7]"
    "filter (\<lambda>r. qr_exam_id r \<noteq> ''e1'') (questions_tbl stored_db) = [stored ''e2'' ''y'' 0]"
    by (simp_all add: stored_db_def stored_def)
  have h1: "if isEditing (editor (Some ''e1''))
         then route_id (editor (Some ''e1'')) = Some ''e1'' \<and> update_error (all_accepted ''e3'') = None
              \<and> delete_accepted (all_accepted ''e3'')
         else insert_exam_response (all_accepted ''e3'') = Inr ''e1''
              \<and> (\<forall>r \<in> set (questions_tbl stored_db). qr_exam_id r \<noteq> ''e1'')"
    by (simp add: ed rt all_accepted_def)
  have h2: "if isEditing (editor None)
         then route_id (editor None) = Some ''e3'' \<and> update_error (all_accepted ''e3'') = None
              \<and> delete_accepted (all_accepted ''e3'')
         else insert_exam_response (all_accepted ''e3'') = Inr ''e3''
              \<and> (\<forall>r \<in> set (questions_tbl stored_db). qr_exam_id r \<noteq> ''e3'')"
    by (simp add: ed all_accepted_def stored_db_def stored_def)
  have q: "insert_questions_error (all_accepted ''e3'') = None" by (simp add: all_accepted_def)
  from handleSave_stores_list_in_order [OF editor_valid h1 q]
  have edit: "filter (\<lambda>r. qr_exam_id r = ''e1'')
        (questions_tbl (snd (handleSave (all_accepted ''e3'') (editor (Some ''e1'')) stored_db)))
       = [(stored ''e1'' ''first'' 0)\<lparr>qr_correct_option := OptB\<rparr>,
          (stored ''e1'' ''second'' 1)\<lparr>qr_correct_option := OptC\<rparr>]"
    and rest: "filter (\<lambda>r. qr_exam_id r \<noteq> ''e1'')
        (questions_tbl (snd (handleSave (all_accepted ''e3'') (editor (Some ''e1'')) stored_db)))
       = filter (\<lambda>r. qr_exam_id r \<noteq> ''e1'') (questions_tbl stored_db)"
    using two_rows [of _ "''e1''" "Some ''e1''"] by (auto simp: len)
  from handleSave_stores_list_in_order [OF editor_valid h2 q]
  have create: "filter (\<lambda>r. qr_exam_id r = ''e3'')
        (questions_tbl (snd (handleSave (all_accepted ''e3'') (editor None) stored_db)))
       = [(stored ''e3'' ''first'' 0)\<lparr>qr_correct_option := OptB\<rparr>,
          (stored ''e3'' ''second'' 1)\<lparr>qr_correct_option := OptC\<rparr>]"
    using two_rows [of _ "''e3''" None] by (auto simp: len)
  from ed old edit rest create editor_valid show ?thesis by simp
qed

text \<open>
  Claim C10, at an edit of exam \<open>e1\<close> whose delete request is refused. The code does not
  look at the response of the delete: it inserts the new list, shows
  \<open>Exam updated successfully\<close> and navigates away, and the exam's stored rows are the
  three old rows, with order indices 0, 7, 7, followed by the two new ones.
\<close>

theorem handleSave_delete_refused_keeps_old_rows:
  "(case handleSave delete_refused (editor (Some ''e1'')) stored_db of
      (s', db') \<Rightarrow>
        ed_toasts s' = [Success ''Exam updated successfully'']
      \<and> ed_navigated s' = Some ''/admin/exams''
      \<and> map (\<lambda>r. (qr_question_text r, qr_order_index r))
           (filter (\<lambda>r. qr_exam_id r = ''e1'') (questions_tbl db'))
          = [(''x'', 0), (''z'', 7), (''w'', 7), (''first'', 0), (''second'', 1)]
      \<and> length (editor_requests db') = 3)"
proof -
  have v: "validation_error (editor (Some ''e1'')) = None" by (rule editor_valid)
  have e: "isEditing (editor (Some ''e1''))" "route_id (editor (Some ''e1'')) = Some ''e1''"
    by (simp_all add: isEditing_def editor_def)
  have q: "ed_questions (editor (Some ''e1'')) = [draft ''first'' OptB 5, draft ''second'' OptC 5]"
    "ed_toasts (editor (Some ''e1'')) = []"
    by (simp_all add: editor_def)
  show ?thesis
    by (simp add: handleSave_def v save_exam_def e update_exam_def delete_questions_def
        insert_questions_def delete_refused_def q questionsToInsert_def draft_def
        stored_db_def stored_def)
qed

section \<open>Sign-up\<close>

text \<open>
  When the query of \<^verbatim>\<open>signUp\<close> is answered and the policies let the session see a row
  with the admin role, a sign-up as admin returns the admin-exists error after that one
  query: the provider is not called and no row is written.
\<close>

lemma signUp_admin_seen:
  assumes "select_answered env"
    and "\<exists>row \<in> set (user_roles db). rr_role row = admin \<and> can_select_role db row"
  shows "signUp env email password fullName admin (role, db) =
     (Some admin_exists_error, role, db\<lparr>auth_requests := auth_requests db @ [SelectAdminRole]\<rparr>)"
proof -
  let ?seen = "filter (\<lambda>row. rr_role row = admin) (filter (can_select_role db) (user_roles db))"
  from assms(2) have "?seen \<noteq> []" by (auto simp: filter_empty_conv)
  then have "0 < length (take 1 (map rr_id ?seen))" by (cases ?seen) simp_all
  with assms(1) show ?thesis by (simp add: signUp_def select_admin_role_def)
qed

lemma signUp_admin_seen_by_admin:
  "signUp (provider_accepts True) ''second@example.com'' ''secret1'' ''Second'' admin
     (Some admin, one_admin (Some ''u1''))
   = (Some admin_exists_error, Some admin,
      (one_admin (Some ''u1''))\<lparr>auth_requests := [SelectAdminRole]\<rparr>)"
proof -
  have "select_answered (provider_accepts True)" by (simp add: provider_accepts_def)
  moreover have "\<exists>row \<in> set (user_roles (one_admin (Some ''u1''))).
      rr_role row = admin \<and> can_select_role (one_admin (Some ''u1'')) row"
    by (simp add: one_admin_def can_select_role_def)
  ultimately show ?thesis
    using signUp_admin_seen by (simp add: one_admin_def)
qed

lemma visitor_sees_no_role: "filter (can_select_role (one_admin None)) (user_roles (one_admin None)) = []"
  by (simp add: one_admin_def can_select_role_def has_role_def)

text \<open>
  Claim C7, for a visitor who is not signed in while account \<open>u1\<close> holds the admin
  role. The SELECT policies of \<open>user_roles\<close> show a session its own role row, and every
  row only to an admin, so the query of \<^verbatim>\<open>signUp\<close> returns no row and the sign-up as
  admin goes on. With a session for the new user the result is \<^verbatim>\<open>{ error: null }\<close>
  and the database holds a second account, its profile and a second admin role row;
  without a session the role insert is refused by the INSERT policy, after the account
  and its profile have been created. In neither case is the admin-exists error returned.
\<close>

theorem signUp_second_admin_by_visitor:
  "has_role (one_admin None) (Some ''u1'') admin
   \<and> (case signUp (provider_accepts True) ''second@example.com'' ''secret1'' ''Second'' admin
             (None, one_admin None) of
        (err, role, db) \<Rightarrow>
          err = None \<and> role = Some admin
        \<and> map au_id (auth_users db) = [''u1'', ''u2'']
        \<and> map pf_user_id (profiles db) = [''u1'', ''u2'']
        \<and> map (\<lambda>row. (rr_user_id row, rr_role row)) (user_roles db)
            = [(''u1'', admin), (''u2'', admin)])
   \<and> (case signUp (provider_accepts False) ''second@example.com'' ''secret1'' ''Second'' admin
             (None, one_admin None) of
        (err, role, db) \<Rightarrow>
          err \<noteq> Some admin_exists_error
        \<and> map au_id (auth_users db) = [''u1'', ''u2'']
        \<and> map pf_user_id (profiles db) = [''u1'', ''u2''])"
proof -
  have admin1: "has_role (one_admin None) (Some ''u1'') admin"
    by (simp add: has_role_def one_admin_def)
  have sel: "select_admin_role True (one_admin None)
      = (Some [], (one_admin None)\<lparr>auth_requests := auth_requests (one_admin None) @ [SelectAdminRole]\<rparr>)"
    by (simp add: select_admin_role_def visitor_sees_no_role)
  have with_session: "signUp (provider_accepts True) ''second@example.com'' ''secret1'' ''Second'' admin
             (None, one_admin None) =
      (None, Some admin,
       \<lparr>auth_users = [\<lparr>au_id = ''u1'', au_email = ''first@example.com'', au_full_name = Some ''First''\<rparr>,
                      \<lparr>au_id = ''u2'', au_email = ''second@example.com'', au_full_name = Some ''Second''\<rparr>],
        profiles = [\<lparr>pf_user_id = ''u1'', pf_email = ''first@example.com'', pf_full_name = ''First''\<rparr>,
                    \<lparr>pf_user_id = ''u2'', pf_email = ''second@example.com'', pf_full_name = ''Second''\<rparr>],
        user_roles = [\<lparr>rr_id = ''r1'', rr_user_id = ''u1'', rr_role = admin\<rparr>,
                      \<lparr>rr_id = ''r2'', rr_user_id = ''u2'', rr_role = admin\<rparr>],
        session_uid = Some ''u2'',
        auth_requests = [SelectAdminRole, AuthSignUp ''second@example.com'' ''Second'',
                         InsertUserRole ''u2'' admin]\<rparr>)"
    by (simp add: signUp_def sel provider_accepts_def)
      (simp add: auth_signUp_def insert_user_role_def can_insert_role_def handle_new_user_def
        one_admin_def)
  have without_session: "signUp (provider_accepts False) ''second@example.com'' ''secret1'' ''Second'' admin
             (None, one_admin None) =
      (Some ''new row violates row-level security policy for table user_roles'', None,
       \<lparr>auth_users = [\<lparr>au_id = ''u1'', au_email = ''first@example.com'', au_full_name = Some ''First''\<rparr>,
                      \<lparr>au_id = ''u2'', au_email = ''second@example.com'', au_full_name = Some ''Second''\<rparr>],
        profiles = [\<lparr>pf_user_id = ''u1'', pf_email = ''first@example.com'', pf_full_name = ''First''\<rparr>,
                    \<lparr>pf_user_id = ''u2'', pf_email = ''second@example.com'', pf_full_name = ''Second''\<rparr>],
        user_roles = [\<lparr>rr_id = ''r1'', rr_user_id = ''u1'', rr_role = admin\<rparr>],
        session_uid = None,
        auth_requests = [SelectAdminRole, AuthSignUp ''second@example.com'' ''Second'',
                         InsertUserRole ''u2'' admin]\<rparr>)"
    by (simp add: signUp_def sel provider_accepts_def)
      (simp add: auth_signUp_def insert_user_role_def can_insert_role_def handle_new_user_def
        one_admin_def)
  show ?thesis
    unfolding with_session without_session using admin1 by (simp add: admin_exists_error_def)
qed

end
